theory Spec2Isabelle
  imports Complex_Main "HOL-Library.List_Lexorder" "HOL-Library.Product_Lexorder"
begin

section \<open>Data model of tempo.py\<close>

text \<open>
  A Python \<open>str\<close> is a sequence of Unicode code points; it is modelled as a list of
  natural numbers, ordered lexicographically as Python's \<open><\<close> orders strings.
  Column labels that the program tests with \<open>in df.columns\<close> are ASCII and are kept as
  HOL strings.
\<close>

type_synonym pystr = "nat list"

text \<open>The string literals of the source, as code points.\<close>

definition str_gnev :: pystr where
  "str_gnev = [1075, 1085, 1077, 1074]"

definition str_radost :: pystr where
  "str_radost = [1088, 1072, 1076, 1086, 1089, 1090]"

definition str_neitr :: pystr where
  "str_neitr = [1085, 1077, 1081, 1090, 1088]"

definition str_neutr :: pystr where
  "str_neutr = [110, 101, 117, 116, 114]"

definition str_radost' :: pystr where
  "str_radost' = [1088, 1072, 1076, 1086, 1089, 1090, 1100]"

definition str_neitralnaya :: pystr where
  "str_neitralnaya = [1085, 1077, 1081, 1090, 1088, 1072, 1083, 1100, 1085, 1072, 1103]"

definition str_drugoe :: pystr where
  "str_drugoe = [1076, 1088, 1091, 1075, 1086, 1077]"

definition str_nachalo :: pystr where
  "str_nachalo = [1085, 1072, 1095, 1072, 1083, 1086]"

definition str_konets :: pystr where
  "str_konets = [1082, 1086, 1085, 1077, 1094]"

definition str_seredina :: pystr where
  "str_seredina = [1089, 1077, 1088, 1077, 1076, 1080, 1085, 1072]"

definition str_consonant :: pystr where
  "str_consonant = [99, 111, 110, 115, 111, 110, 97, 110, 116]"

definition str_nan :: pystr where
  "str_nan = [110, 97, 110]"

definition label_rus :: pystr where
  "label_rus = [1088, 1091, 1089, 1089, 1082, 1080, 1081, 32,
                1074, 1072, 1088, 1080, 1072, 1085, 1090]"

definition label_bil :: pystr where
  "label_bil = [1088, 1091, 1089, 1089, 1082, 1072, 1103, 32, 1088, 1077, 1095, 1100, 32,
                1073, 1080, 1083, 1080, 1085, 1075, 1074, 1072]"

definition label_kab :: pystr where
  "label_kab = [1082, 1072, 1073, 1072, 1088, 1076, 1080, 1085, 1089, 1082, 1080, 1081, 32,
                1103, 1079, 1099, 1082]"

text \<open>
  One row of the data frame. Every cell is either a value or missing (pandas' NaN,
  here \<open>None\<close>): the text columns hold strings, the measurement columns hold numbers.
  Floating-point numbers are modelled as reals. A cell of a column that the frame does
  not have is never read by the program.
\<close>

record vowel =
  file_name :: "pystr option"
  variant :: "pystr option"
  emotion :: "pystr option"
  transcription_phonemes :: "pystr option"
  percent_duration :: "real option"
  total_duration :: "real option"
  duration :: "real option"
  dur_s :: "real option"
  v_index :: "int option"
  zone :: "pystr option"

record frame =
  columns :: "string list"
  rows :: "vowel list"

text \<open>
  The exceptions that can leave the program. The four messages of the source's own
  \<open>raise ValueError(...)\<close> statements name the missing column; numpy raises a
  \<open>ValueError\<close> of its own when \<open>np.vectorize\<close> is called on arrays of size 0.
\<close>

datatype message =
    No_transcription_phonemes
  | No_emotion_or_file_name
  | No_percent_duration
  | No_file_name
  | Vectorize_size_0

datatype error = ValueError message | AttributeError | KeyError string

section \<open>Loading\<close>

definition add_column :: "string \<Rightarrow> string list \<Rightarrow> string list" where
  "add_column c cols = (if c \<in> set cols then cols else cols @ [c])"

text \<open>
  \<open>load_variant\<close>: reading the spreadsheet and renaming its column labels lie outside
  the model; the argument is the frame as read, with its labels already in canonical
  form. What remains is the assignment \<open>df["variant"] = variant_label\<close>.
\<close>

definition load_variant :: "frame \<Rightarrow> pystr \<Rightarrow> frame" where
  "load_variant df variant_label =
     \<lparr>columns = add_column ''variant'' (columns df),
      rows = map (\<lambda>r. r\<lparr>variant := Some variant_label\<rparr>) (rows df)\<rparr>"

section \<open>Emotion classifier\<close>

fun starts_with :: "pystr \<Rightarrow> pystr \<Rightarrow> bool" where
  "starts_with [] s = True"
| "starts_with (c # cs) [] = False"
| "starts_with (c # cs) (d # ds) = (c = d \<and> starts_with cs ds)"

text \<open>\<open>contains sub s\<close> is Python's \<open>sub in s\<close> for strings.\<close>

fun contains :: "pystr \<Rightarrow> pystr \<Rightarrow> bool" where
  "contains sub [] = (sub = [])"
| "contains sub (c # cs) = (starts_with sub (c # cs) \<or> contains sub cs)"

text \<open>
  \<open>detect_emotion\<close>. Python's \<open>str.lower\<close> is defined by the Unicode case tables; it
  is a parameter \<open>lower\<close> of the model, so every result below holds for whatever
  function it is. \<open>py_str\<close> is \<open>str(name)\<close> on a cell: a missing cell is the float
  NaN, printed \<open>nan\<close>.
\<close>

definition py_str :: "pystr option \<Rightarrow> pystr" where
  "py_str name = (case name of None \<Rightarrow> str_nan | Some s \<Rightarrow> s)"

definition detect_emotion :: "(pystr \<Rightarrow> pystr) \<Rightarrow> pystr option \<Rightarrow> pystr" where
  "detect_emotion lower name =
     (let s = lower (py_str name) in
      if contains str_gnev s then str_gnev
      else if contains str_radost s then str_radost'
      else if contains str_neitr s \<or> contains str_neutr s then str_neitralnaya
      else str_drugoe)"

section \<open>Dataset assembler\<close>

text \<open>
  \<open>pd.concat\<close>: the columns of the result are those of all frames, in order of first
  appearance; a frame's rows get a missing cell in every column the frame lacks.
\<close>

definition reindex :: "string list \<Rightarrow> vowel \<Rightarrow> vowel" where
  "reindex cols r =
     \<lparr>file_name = (if ''file_name'' \<in> set cols then file_name r else None),
      variant = (if ''variant'' \<in> set cols then variant r else None),
      emotion = (if ''emotion'' \<in> set cols then emotion r else None),
      transcription_phonemes =
        (if ''transcription_phonemes'' \<in> set cols then transcription_phonemes r else None),
      percent_duration = (if ''percent_duration'' \<in> set cols then percent_duration r else None),
      total_duration = (if ''total_duration'' \<in> set cols then total_duration r else None),
      duration = (if ''duration'' \<in> set cols then duration r else None),
      dur_s = (if ''dur_s'' \<in> set cols then dur_s r else None),
      v_index = (if ''v_index'' \<in> set cols then v_index r else None),
      zone = (if ''zone'' \<in> set cols then zone r else None)\<rparr>"

definition pd_concat :: "frame list \<Rightarrow> frame" where
  "pd_concat dfs =
     \<lparr>columns = rev (remdups (rev (concat (map columns dfs)))),
      rows = concat (map (\<lambda>df. map (reindex (columns df)) (rows df)) dfs)\<rparr>"

text \<open>The row mask \<open>df["transcription_phonemes"].str.lower() != "consonant"\<close>.\<close>

definition not_consonant :: "(pystr \<Rightarrow> pystr) \<Rightarrow> vowel \<Rightarrow> bool" where
  "not_consonant lower r = (map_option lower (transcription_phonemes r) \<noteq> Some str_consonant)"

text \<open>\<open>df["percent_duration"] / 100.0 * df["total_duration"]\<close>, cell by cell.\<close>

definition scaled_duration :: "real option \<Rightarrow> real option \<Rightarrow> real option" where
  "scaled_duration p t =
     (case p of None \<Rightarrow> None
      | Some x \<Rightarrow> (case t of None \<Rightarrow> None | Some y \<Rightarrow> Some (x / 100 * y)))"

text \<open>
  The steps of \<open>prepare_full_dataframe\<close>, in the order of the source. First the emotion
  column: kept when the frame has one, else derived from \<open>file_name\<close>.
\<close>

definition with_emotion :: "(pystr \<Rightarrow> pystr) \<Rightarrow> frame \<Rightarrow> error + frame" where
  "with_emotion lower df =
     (if ''emotion'' \<notin> set (columns df)
      then (if ''file_name'' \<notin> set (columns df)
            then Inl (ValueError No_emotion_or_file_name)
            else Inr \<lparr>columns = add_column ''emotion'' (columns df),
                      rows = map (\<lambda>r. r\<lparr>emotion := Some (detect_emotion lower (file_name r))\<rparr>)
                               (rows df)\<rparr>)
      else Inr df)"

text \<open>The column \<open>dur_s\<close>, after the check for \<open>percent_duration\<close>.\<close>

definition dur_s_of :: "string list \<Rightarrow> vowel \<Rightarrow> real option" where
  "dur_s_of cols r =
     (if ''total_duration'' \<in> set cols
      then scaled_duration (percent_duration r) (total_duration r)
      else if ''duration'' \<in> set cols then duration r
      else None)"

definition with_dur_s :: "frame \<Rightarrow> error + frame" where
  "with_dur_s df =
     (if ''percent_duration'' \<notin> set (columns df)
      then Inl (ValueError No_percent_duration)
      else Inr \<lparr>columns = add_column ''dur_s'' (columns df),
                rows = map (\<lambda>r. r\<lparr>dur_s := dur_s_of (columns df) r\<rparr>) (rows df)\<rparr>)"

text \<open>The three spreadsheets, loaded with their labels and concatenated.\<close>

definition loaded :: "frame \<Rightarrow> frame \<Rightarrow> frame \<Rightarrow> frame" where
  "loaded rus_file bil_file kab_file =
     pd_concat [load_variant rus_file label_rus,
                load_variant bil_file label_bil,
                load_variant kab_file label_kab]"

text \<open>
  \<open>prepare_full_dataframe\<close>. The \<open>.str\<close> accessor of pandas raises \<open>AttributeError\<close>
  when the dtype it infers for the column is not a text dtype, as for a column of
  missing cells only that was read as a float column. The model has no dtypes: whether
  the accessor accepts the column is the input \<open>str_ok\<close>.
\<close>

definition prepare_full_dataframe ::
  "(pystr \<Rightarrow> pystr) \<Rightarrow> bool \<Rightarrow> frame \<Rightarrow> frame \<Rightarrow> frame \<Rightarrow> error + frame" where
  "prepare_full_dataframe lower str_ok rus_file bil_file kab_file =
     (let df = loaded rus_file bil_file kab_file in
      if ''transcription_phonemes'' \<notin> set (columns df)
      then Inl (ValueError No_transcription_phonemes)
      else if \<not> str_ok
      then Inl AttributeError
      else
        (case with_emotion lower (df\<lparr>rows := filter (not_consonant lower) (rows df)\<rparr>) of
           Inl e \<Rightarrow> Inl e
         | Inr df' \<Rightarrow> with_dur_s df'))"

section \<open>Zone assigner\<close>

text \<open>
  \<open>sort_values\<close> on several columns is a stable lexicographic sort that puts missing
  cells last in each column; strings compare by code point.
\<close>

definition na_last :: "pystr option \<Rightarrow> nat \<times> pystr" where
  "na_last c = (case c of None \<Rightarrow> (1, []) | Some s \<Rightarrow> (0, s))"

definition by_key :: "vowel \<Rightarrow> (nat \<times> pystr) \<times> (nat \<times> pystr) \<times> (nat \<times> pystr)" where
  "by_key r = (na_last (variant r), na_last (emotion r), na_last (file_name r))"

definition sort_values :: "vowel list \<Rightarrow> vowel list" where
  "sort_values rs = sort_key by_key rs"

text \<open>
  \<open>groupby(["variant", "emotion", "file_name"])\<close> leaves out every row with a missing
  cell in a key column: such a row has no group.
\<close>

definition group_key :: "vowel \<Rightarrow> (pystr \<times> pystr \<times> pystr) option" where
  "group_key r =
     (case variant r of None \<Rightarrow> None
      | Some v \<Rightarrow> (case emotion r of None \<Rightarrow> None
         | Some e \<Rightarrow> (case file_name r of None \<Rightarrow> None
            | Some f \<Rightarrow> Some (v, e, f))))"

definition in_group :: "pystr \<times> pystr \<times> pystr \<Rightarrow> vowel \<Rightarrow> bool" where
  "in_group k r = (group_key r = Some k)"

text \<open>
  \<open>cumcount\<close>: for each row the number of earlier rows of its group, and NaN for a row
  without a group (pandas 1.5 and later). The first argument holds the rows already
  passed.
\<close>

fun cumcount :: "vowel list \<Rightarrow> vowel list \<Rightarrow> int option list" where
  "cumcount seen [] = []"
| "cumcount seen (r # rs) =
     (case group_key r of None \<Rightarrow> None
      | Some k \<Rightarrow> Some (int (length (filter (in_group k) seen))))
     # cumcount (seen @ [r]) rs"

text \<open>Arithmetic and comparisons on numbers that may be NaN: a comparison with NaN is false.\<close>

definition nan_add :: "int option \<Rightarrow> int \<Rightarrow> int option" where
  "nan_add a b = (case a of None \<Rightarrow> None | Some x \<Rightarrow> Some (x + b))"

definition nan_sub :: "int option \<Rightarrow> int \<Rightarrow> int option" where
  "nan_sub a b = (case a of None \<Rightarrow> None | Some x \<Rightarrow> Some (x - b))"

definition nan_le :: "int option \<Rightarrow> int \<Rightarrow> bool" where
  "nan_le a b = (case a of None \<Rightarrow> False | Some x \<Rightarrow> x \<le> b)"

definition nan_gt :: "int option \<Rightarrow> int option \<Rightarrow> bool" where
  "nan_gt a b =
     (case a of None \<Rightarrow> False | Some x \<Rightarrow> (case b of None \<Rightarrow> False | Some y \<Rightarrow> x > y))"

fun present :: "'a option list \<Rightarrow> 'a list" where
  "present [] = []"
| "present (None # xs) = present xs"
| "present (Some x # xs) = x # present xs"

text \<open>
  \<open>transform("max")\<close> of \<open>v_index\<close>: the largest index of the row's group, and NaN for
  a row without a group.
\<close>

definition group_max :: "vowel list \<Rightarrow> vowel \<Rightarrow> int option" where
  "group_max rs r =
     (case group_key r of None \<Rightarrow> None
      | Some k \<Rightarrow>
          (let vs = present (map v_index (filter (in_group k) rs))
           in if vs = [] then None else Some (Max (set vs))))"

text \<open>
  \<open>zone_for_row\<close>, on numbers that may be NaN, and the two column assignments of
  \<open>assign_zones\<close>. \<open>np.vectorize\<close> raises \<open>ValueError\<close> on arrays of size 0.
\<close>

definition zone_for_row :: "int option \<Rightarrow> int option \<Rightarrow> pystr" where
  "zone_for_row row_count row_index =
     (if nan_le row_index 3 then str_nachalo
      else if nan_gt row_index (nan_sub row_count 3) then str_konets
      else str_seredina)"

definition set_v_index :: "vowel list \<Rightarrow> vowel list" where
  "set_v_index rs = map2 (\<lambda>r c. r\<lparr>v_index := nan_add c 1\<rparr>) rs (cumcount [] rs)"

definition set_zone :: "vowel list \<Rightarrow> vowel list" where
  "set_zone rs =
     map2 (\<lambda>r n. r\<lparr>zone := Some (zone_for_row n (v_index r))\<rparr>) rs (map (group_max rs) rs)"

definition assign_zones :: "frame \<Rightarrow> error + frame" where
  "assign_zones df =
     (if ''file_name'' \<notin> set (columns df) then Inl (ValueError No_file_name)
      else if ''variant'' \<notin> set (columns df) then Inl (KeyError ''variant'')
      else if ''emotion'' \<notin> set (columns df) then Inl (KeyError ''emotion'')
      else
        let rs = set_v_index (sort_values (rows df)) in
        if rs = [] then Inl (ValueError Vectorize_size_0)
        else Inr \<lparr>columns = add_column ''zone'' (add_column ''v_index'' (columns df)),
                  rows = set_zone rs\<rparr>)"

section \<open>Aggregators\<close>

text \<open>
  \<open>mean\<close> and \<open>std\<close> of pandas skip missing cells; \<open>std\<close> divides by \<open>n - 1\<close>. The mean
  of no value and the deviation of fewer than two values are NaN.
\<close>

definition agg_mean :: "real option list \<Rightarrow> real option" where
  "agg_mean cells =
     (let vs = present cells
      in if vs = [] then None else Some (sum_list vs / real (length vs)))"

definition agg_std :: "real option list \<Rightarrow> real option" where
  "agg_std cells =
     (let vs = present cells; n = length vs
      in if n < 2 then None
         else let m = sum_list vs / real n
              in Some (sqrt (sum_list (map (\<lambda>x. (x - m)\<^sup>2) vs) / real (n - 1))))"

text \<open>
  \<open>groupby(keys)\<close>: one group for every key that occurs, in ascending order of the keys;
  rows whose key has a missing cell are left out.
\<close>

definition groupby :: "(vowel \<Rightarrow> 'k::linorder option) \<Rightarrow> vowel list \<Rightarrow> ('k \<times> vowel list) list" where
  "groupby key rs =
     map (\<lambda>k. (k, filter (\<lambda>r. key r = Some k) rs)) (sort (remdups (present (map key rs))))"

text \<open>The aggregation \<open>agg_dict\<close>: statistics of \<open>percent_duration\<close>, then of \<open>dur_s\<close> if asked for.\<close>

definition agg :: "bool \<Rightarrow> vowel list \<Rightarrow> real option list" where
  "agg with_dur g =
     [agg_mean (map percent_duration g), agg_std (map percent_duration g)]
     @ (if with_dur then [agg_mean (map dur_s g), agg_std (map dur_s g)] else [])"

text \<open>The column labels of the printed tables, transliterated.\<close>

datatype label =
    Emotsiya | Variant | Zona
  | Sredniy_pct_dlitelnosti | SD_pct
  | Srednyaya_dlitelnost_s | SD_dlitelnosti_s

record 'k table =
  labels :: "label list"
  body :: "('k \<times> real option list) list"

definition emotion_variant :: "vowel \<Rightarrow> (pystr \<times> pystr) option" where
  "emotion_variant r =
     (case emotion r of None \<Rightarrow> None
      | Some e \<Rightarrow> (case variant r of None \<Rightarrow> None | Some v \<Rightarrow> Some (e, v)))"

definition emotion_variant_zone :: "vowel \<Rightarrow> (pystr \<times> pystr \<times> pystr) option" where
  "emotion_variant_zone r =
     (case emotion r of None \<Rightarrow> None
      | Some e \<Rightarrow> (case variant r of None \<Rightarrow> None
         | Some v \<Rightarrow> (case zone r of None \<Rightarrow> None | Some z \<Rightarrow> Some (e, v, z))))"

definition missing_column :: "string list \<Rightarrow> string list \<Rightarrow> string option" where
  "missing_column needed cols = List.find (\<lambda>c. c \<notin> set cols) needed"

definition compute_overall_table :: "frame \<Rightarrow> error + (pystr \<times> pystr) table" where
  "compute_overall_table df =
     (case missing_column [''emotion'', ''variant'', ''percent_duration''] (columns df) of
        Some c \<Rightarrow> Inl (KeyError c)
      | None \<Rightarrow>
          Inr \<lparr>labels =
                 (if ''dur_s'' \<in> set (columns df)
                  then [Emotsiya, Variant, Sredniy_pct_dlitelnosti, SD_pct,
                        Srednyaya_dlitelnost_s, SD_dlitelnosti_s]
                  else [Emotsiya, Variant, Sredniy_pct_dlitelnosti, SD_pct]),
               body = map (\<lambda>(k, g). (k, agg (''dur_s'' \<in> set (columns df)) g))
                        (groupby emotion_variant (rows df))\<rparr>)"

definition compute_zone_table :: "frame \<Rightarrow> error + (pystr \<times> pystr \<times> pystr) table" where
  "compute_zone_table df =
     (case assign_zones df of
        Inl e \<Rightarrow> Inl e
      | Inr df_z \<Rightarrow>
          (case missing_column [''percent_duration''] (columns df_z) of
             Some c \<Rightarrow> Inl (KeyError c)
           | None \<Rightarrow>
               Inr \<lparr>labels =
                      (if ''dur_s'' \<in> set (columns df_z)
                       then [Emotsiya, Variant, Zona, Sredniy_pct_dlitelnosti, SD_pct,
                             Srednyaya_dlitelnost_s, SD_dlitelnosti_s]
                       else [Emotsiya, Variant, Zona, Sredniy_pct_dlitelnosti, SD_pct]),
                    body = map (\<lambda>(k, g). (k, agg (''dur_s'' \<in> set (columns df_z)) g))
                             (groupby emotion_variant_zone (rows df_z))\<rparr>))"

section \<open>The run\<close>

text \<open>
  The run up to the printing of the zone table: what has been printed, in order, and
  the exception that ended the run there, if any. Every \<open>raise\<close> of the source lies in
  this part; the pivot summary that follows is built from the zone table alone.
\<close>

datatype printed =
    Overall_title
  | Overall_table "(pystr \<times> pystr) table"
  | Zone_title
  | Zone_table "(pystr \<times> pystr \<times> pystr) table"

definition main ::
  "(pystr \<Rightarrow> pystr) \<Rightarrow> bool \<Rightarrow> frame \<Rightarrow> frame \<Rightarrow> frame
   \<Rightarrow> printed list \<times> error option" where
  "main lower str_ok rus_file bil_file kab_file =
     (case prepare_full_dataframe lower str_ok rus_file bil_file kab_file of
        Inl e \<Rightarrow> ([], Some e)
      | Inr df_all \<Rightarrow>
          (case compute_overall_table df_all of
             Inl e \<Rightarrow> ([], Some e)
           | Inr overall_table \<Rightarrow>
               (case compute_zone_table df_all of
                  Inl e \<Rightarrow> ([Overall_title, Overall_table overall_table], Some e)
                | Inr zone_table \<Rightarrow>
                    ([Overall_title, Overall_table overall_table,
                      Zone_title, Zone_table zone_table], None))))"

section \<open>Notions used in the statements\<close>

text \<open>
  \<open>numbered seen rs\<close> is the assignment of \<open>v_index\<close> to the rows \<open>rs\<close> that follow the
  rows \<open>seen\<close>; \<open>set_v_index\<close> is \<open>numbered []\<close>.
\<close>

definition numbered :: "vowel list \<Rightarrow> vowel list \<Rightarrow> vowel list" where
  "numbered seen rs = map2 (\<lambda>r c. r\<lparr>v_index := nan_add c 1\<rparr>) rs (cumcount seen rs)"

text \<open>A row without the columns that the zone assigner writes.\<close>

definition unzoned :: "vowel \<Rightarrow> vowel" where
  "unzoned r = r\<lparr>v_index := None, zone := None\<rparr>"

text \<open>A row without the columns that the assembler derives.\<close>

definition underived :: "vowel \<Rightarrow> vowel" where
  "underived r = r\<lparr>emotion := None, dur_s := None\<rparr>"

text \<open>The column labels that occur in at least one of the three loaded files.\<close>

definition file_columns :: "frame \<Rightarrow> frame \<Rightarrow> frame \<Rightarrow> string set" where
  "file_columns rus_file bil_file kab_file =
     set (columns rus_file) \<union> set (columns bil_file) \<union> set (columns kab_file)"

text \<open>What the run has printed when it enters \<open>compute_zone_table\<close>.\<close>

definition printed_overall ::
  "(pystr \<Rightarrow> pystr) \<Rightarrow> bool \<Rightarrow> frame \<Rightarrow> frame \<Rightarrow> frame \<Rightarrow> printed list" where
  "printed_overall lower str_ok rus_file bil_file kab_file =
     (case prepare_full_dataframe lower str_ok rus_file bil_file kab_file of
        Inl e \<Rightarrow> []
      | Inr df_all \<Rightarrow>
          (case compute_overall_table df_all of
             Inl e \<Rightarrow> []
           | Inr overall_table \<Rightarrow> [Overall_title, Overall_table overall_table]))"

section \<open>Sample data\<close>

text \<open>
  A lowering function for the examples: Python's \<open>str.lower\<close> on ASCII and on the
  Cyrillic letters.
\<close>

definition lower_cp :: "nat \<Rightarrow> nat" where
  "lower_cp c =
     (if 65 \<le> c \<and> c \<le> 90 then c + 32
      else if 1040 \<le> c \<and> c \<le> 1071 then c + 32
      else if 1024 \<le> c \<and> c \<le> 1039 then c + 80
      else c)"

definition lower_basic :: "pystr \<Rightarrow> pystr" where
  "lower_basic s = map lower_cp s"

text \<open>
  Utterance \<open>u1\<close>, neutral, as a spreadsheet of the monolingual speakers gives it: three
  vowels and no duration column. The other two spreadsheets are empty.
\<close>

definition scenario_row :: "real \<Rightarrow> vowel" where
  "scenario_row p =
     \<lparr>file_name = Some [117, 49], variant = None, emotion = Some str_neitralnaya,
      transcription_phonemes = Some [97], percent_duration = Some p,
      total_duration = None, duration = None, dur_s = None, v_index = None, zone = None\<rparr>"

definition scenario_file :: frame where
  "scenario_file =
     \<lparr>columns = [''file_name'', ''emotion'', ''transcription_phonemes'', ''percent_duration''],
      rows = [scenario_row 10, scenario_row 20, scenario_row 70]\<rparr>"

definition empty_file :: frame where
  "empty_file = \<lparr>columns = [], rows = []\<rparr>"

definition scenario_df :: frame where
  "scenario_df =
     \<lparr>columns = [''file_name'', ''emotion'', ''transcription_phonemes'', ''percent_duration'',
                 ''variant'', ''dur_s''],
      rows = map (\<lambda>p. (scenario_row p)\<lparr>variant := Some label_rus\<rparr>) [10, 20, 70]\<rparr>"

text \<open>An utterance of ten vowels, before and after zone assignment.\<close>

definition ten_df :: frame where
  "ten_df =
     \<lparr>columns = [''file_name'', ''emotion'', ''transcription_phonemes'', ''percent_duration'',
                 ''variant'', ''dur_s''],
      rows = map (\<lambda>p. (scenario_row p)\<lparr>variant := Some label_rus\<rparr>)
               [1, 2, 3, 4, 5, 6, 7, 8, 9, 10]\<rparr>"

definition ten_zoned :: frame where
  "ten_zoned =
     \<lparr>columns = [''file_name'', ''emotion'', ''transcription_phonemes'', ''percent_duration'',
                 ''variant'', ''dur_s'', ''v_index'', ''zone''],
      rows = map (\<lambda>(p, i, z). (scenario_row p)\<lparr>variant := Some label_rus, v_index := Some i,
                      zone := Some z\<rparr>)
               [(1, 1, str_nachalo), (2, 2, str_nachalo), (3, 3, str_nachalo),
                (4, 4, str_seredina), (5, 5, str_seredina), (6, 6, str_seredina),
                (7, 7, str_seredina), (8, 8, str_konets), (9, 9, str_konets),
                (10, 10, str_konets)]\<rparr>"

text \<open>Rows of a spreadsheet of the monolingual speakers, all neutral.\<close>

definition file_row :: "pystr option \<Rightarrow> pystr option \<Rightarrow> real \<Rightarrow> vowel" where
  "file_row name phoneme p =
     \<lparr>file_name = name, variant = None, emotion = Some str_neitralnaya,
      transcription_phonemes = phoneme, percent_duration = Some p,
      total_duration = None, duration = None, dur_s = None, v_index = None, zone = None\<rparr>"

text \<open>A spreadsheet with an emotion column and no file name, and one without percentages.\<close>

definition no_name_file :: frame where
  "no_name_file =
     \<lparr>columns = [''emotion'', ''transcription_phonemes'', ''percent_duration''],
      rows = [file_row None (Some [97]) 10]\<rparr>"

definition no_percent_file :: frame where
  "no_percent_file =
     \<lparr>columns = [''file_name'', ''transcription_phonemes''],
      rows = [file_row (Some [117, 49]) (Some [97]) 10]\<rparr>"

text \<open>Two utterances whose rows alternate, before and after zone assignment.\<close>

definition two_row :: "pystr \<Rightarrow> real \<Rightarrow> vowel" where
  "two_row name p = (file_row (Some name) (Some [97]) p)\<lparr>variant := Some label_rus\<rparr>"

definition two_df :: frame where
  "two_df =
     \<lparr>columns = [''file_name'', ''emotion'', ''transcription_phonemes'', ''percent_duration'',
                 ''variant'', ''dur_s''],
      rows = [two_row [117, 50] 40, two_row [117, 49] 10, two_row [117, 50] 60,
              two_row [117, 49] 90]\<rparr>"

definition two_zoned :: frame where
  "two_zoned =
     \<lparr>columns = [''file_name'', ''emotion'', ''transcription_phonemes'', ''percent_duration'',
                 ''variant'', ''dur_s'', ''v_index'', ''zone''],
      rows = [(two_row [117, 49] 10)\<lparr>v_index := Some 1, zone := Some str_nachalo\<rparr>,
              (two_row [117, 49] 90)\<lparr>v_index := Some 2, zone := Some str_nachalo\<rparr>,
              (two_row [117, 50] 40)\<lparr>v_index := Some 1, zone := Some str_nachalo\<rparr>,
              (two_row [117, 50] 60)\<lparr>v_index := Some 2, zone := Some str_nachalo\<rparr>]\<rparr>"

text \<open>A spreadsheet with both duration columns, and the dataset assembled from it.\<close>

definition timed_file :: frame where
  "timed_file =
     \<lparr>columns = [''file_name'', ''emotion'', ''transcription_phonemes'', ''percent_duration'',
                 ''total_duration'', ''duration''],
      rows = [(file_row (Some [117, 49]) (Some [97]) 50)\<lparr>total_duration := Some 2,
                                                            duration := Some 7\<rparr>]\<rparr>"

definition timed_df :: frame where
  "timed_df =
     \<lparr>columns = [''file_name'', ''emotion'', ''transcription_phonemes'', ''percent_duration'',
                 ''total_duration'', ''duration'', ''variant'', ''dur_s''],
      rows = [(file_row (Some [117, 49]) (Some [97]) 50)\<lparr>variant := Some label_rus,
                 total_duration := Some 2, duration := Some 7, dur_s := Some 1\<rparr>]\<rparr>"

text \<open>
  A spreadsheet with a missing phoneme label, a consonant and a vowel, and the dataset
  assembled from it.
\<close>

definition mixed_file :: frame where
  "mixed_file =
     \<lparr>columns = [''file_name'', ''emotion'', ''transcription_phonemes'', ''percent_duration''],
      rows = [file_row (Some [117, 49]) None 10,
              file_row (Some [117, 49]) (Some [67, 111, 110, 115, 111, 110, 97, 110, 116]) 20,
              file_row (Some [117, 49]) (Some [97]) 70]\<rparr>"

definition mixed_df :: frame where
  "mixed_df =
     \<lparr>columns = [''file_name'', ''emotion'', ''transcription_phonemes'', ''percent_duration'',
                 ''variant'', ''dur_s''],
      rows = [(file_row (Some [117, 49]) None 10)\<lparr>variant := Some label_rus\<rparr>,
              (file_row (Some [117, 49]) (Some [97]) 70)\<lparr>variant := Some label_rus\<rparr>]\<rparr>"

section \<open>Properties of the zone assigner\<close>

lemma set_v_index_numbered: "set_v_index rs = numbered [] rs"
  by (simp add: set_v_index_def numbered_def)

lemma numbered_Nil [simp]: "numbered seen [] = []"
  by (simp add: numbered_def)

lemma numbered_Cons [simp]:
  "numbered seen (r # rs) =
     r\<lparr>v_index := (case group_key r of None \<Rightarrow> None
                    | Some k \<Rightarrow> Some (int (length (filter (in_group k) seen)) + 1))\<rparr>
     # numbered (seen @ [r]) rs"
  by (simp add: numbered_def nan_add_def split: option.splits)

lemma group_key_v_index [simp]: "group_key (r\<lparr>v_index := x\<rparr>) = group_key r"
  by (simp add: group_key_def cong: option.case_cong)

lemma group_key_zone [simp]: "group_key (r\<lparr>zone := x\<rparr>) = group_key r"
  by (simp add: group_key_def cong: option.case_cong)

lemma in_group_v_index [simp]: "in_group k (r\<lparr>v_index := x\<rparr>) = in_group k r"
  by (simp add: in_group_def)

lemma in_group_zone [simp]: "in_group k (r\<lparr>zone := x\<rparr>) = in_group k r"
  by (simp add: in_group_def)

lemma by_key_v_index [simp]: "by_key (r\<lparr>v_index := x\<rparr>) = by_key r"
  by (simp add: by_key_def)

lemma by_key_zone [simp]: "by_key (r\<lparr>zone := x\<rparr>) = by_key r"
  by (simp add: by_key_def)

lemma length_cumcount [simp]: "length (cumcount seen rs) = length rs"
  by (induction rs arbitrary: seen) auto

lemma length_numbered [simp]: "length (numbered seen rs) = length rs"
  by (induction rs arbitrary: seen) auto

lemma map_group_key_numbered [simp]: "map group_key (numbered seen rs) = map group_key rs"
  by (induction rs arbitrary: seen) auto

lemma map_by_key_numbered [simp]: "map by_key (numbered seen rs) = map by_key rs"
  by (induction rs arbitrary: seen) auto

lemma filter_by_key_numbered_erase:
  "map (\<lambda>r. r\<lparr>v_index := a\<rparr>) (filter (\<lambda>r. by_key r = x) (numbered seen rs))
   = map (\<lambda>r. r\<lparr>v_index := a\<rparr>) (filter (\<lambda>r. by_key r = x) rs)"
  by (induction rs arbitrary: seen) auto

lemma length_filter_numbered [simp]:
  "length (filter (in_group k) (numbered seen rs)) = length (filter (in_group k) rs)"
  by (induction rs arbitrary: seen) auto

lemma v_index_in_group:
  "map v_index (filter (in_group k) (numbered seen rs))
   = map (\<lambda>j. Some (int j))
       [Suc (length (filter (in_group k) seen))
        ..< Suc (length (filter (in_group k) seen) + length (filter (in_group k) rs))]"
proof (induction rs arbitrary: seen)
  case Nil
  then show ?case by simp
next
  case (Cons r rs)
  show ?case
  proof (cases "in_group k r")
    case True
    then have gk: "group_key r = Some k" by (simp add: in_group_def)
    show ?thesis
      using True gk Cons.IH [of "seen @ [r]"]
      by (simp add: upt_conv_Cons del: upt_Suc)
  next
    case False
    then show ?thesis
      using Cons.IH [of "seen @ [r]"] by simp
  qed
qed

lemma present_map_Some [simp]: "present (map (\<lambda>j. Some (f j)) xs) = map f xs"
  by (induction xs) auto

lemma set_zone_map:
  "set_zone rs = map (\<lambda>r. r\<lparr>zone := Some (zone_for_row (group_max rs r) (v_index r))\<rparr>) rs"
  by (simp add: set_zone_def zip_map2 map2_map_map [symmetric] zip_same_conv_map)

lemma length_set_zone [simp]: "length (set_zone rs) = length rs"
  by (simp add: set_zone_map)

lemma map_group_key_set_zone [simp]: "map group_key (set_zone rs) = map group_key rs"
  by (simp add: set_zone_map)

lemma map_by_key_set_zone [simp]: "map by_key (set_zone rs) = map by_key rs"
  by (simp add: set_zone_map)

lemma map_v_index_set_zone [simp]: "map v_index (set_zone rs) = map v_index rs"
  by (simp add: set_zone_map)

lemma filter_in_group_set_zone:
  "filter (in_group k) (set_zone rs)
   = map (\<lambda>r. r\<lparr>zone := Some (zone_for_row (group_max rs r) (v_index r))\<rparr>)
       (filter (in_group k) rs)"
  by (simp add: set_zone_map filter_map comp_def)

lemma group_max_zone [simp]: "group_max rs (r\<lparr>zone := z\<rparr>) = group_max rs r"
  by (simp add: group_max_def)

lemma group_max_set_zone [simp]: "group_max (set_zone rs) r = group_max rs r"
  by (simp add: group_max_def filter_in_group_set_zone comp_def cong: option.case_cong)

lemma set_zone_idem: "set_zone (set_zone rs) = set_zone rs"
proof -
  have "set_zone (set_zone rs)
        = map (\<lambda>r. r\<lparr>zone := Some (zone_for_row (group_max rs r) (v_index r))\<rparr>) (set_zone rs)"
    by (subst set_zone_map) simp
  also have "\<dots> = set_zone rs"
    by (simp add: set_zone_map comp_def)
  finally show ?thesis .
qed

lemma Max_int_upt: "0 < n \<Longrightarrow> Max (int ` {Suc 0 ..< Suc n}) = int n"
  by (rule Max_eqI) auto

lemma group_max_numbered:
  assumes "group_key r = Some k" and "0 < length (filter (in_group k) rs)"
  shows "group_max (numbered [] rs) r = Some (int (length (filter (in_group k) rs)))"
proof -
  have "present (map v_index (filter (in_group k) (numbered [] rs)))
        = map int [Suc 0 ..< Suc (length (filter (in_group k) rs))]"
    by (simp add: v_index_in_group del: upt_Suc)
  then show ?thesis
    using assms by (simp add: group_max_def Max_int_upt del: upt_Suc)
qed

lemma numbered_fixed:
  assumes "\<forall>i < length rs. v_index (rs ! i) = nan_add (cumcount [] rs ! i) 1"
  shows "numbered [] rs = rs"
proof (rule nth_equalityI)
  show "length (numbered [] rs) = length rs" by simp
next
  fix i assume "i < length (numbered [] rs)"
  then have i: "i < length rs" by simp
  then have "numbered [] rs ! i = (rs ! i)\<lparr>v_index := nan_add (cumcount [] rs ! i) 1\<rparr>"
    by (simp add: numbered_def)
  also have "\<dots> = rs ! i" using assms i by simp
  finally show "numbered [] rs ! i = rs ! i" .
qed

lemma cumcount_keys:
  "map group_key seen = map group_key seen' \<Longrightarrow> map group_key rs = map group_key rs'
   \<Longrightarrow> cumcount seen rs = cumcount seen' rs'"
proof (induction rs arbitrary: seen seen' rs')
  case Nil
  then show ?case by simp
next
  case (Cons r rs)
  then obtain r' rs'' where rs': "rs' = r' # rs''" by auto
  have cnt: "length (filter (in_group k) seen) = length (filter (in_group k) seen')" for k
  proof -
    have *: "length (filter (in_group k) xs) = length (filter (\<lambda>x. x = Some k) (map group_key xs))"
      for xs
      by (induction xs) (auto simp: in_group_def)
    show ?thesis unfolding * using Cons.prems(1) by (simp only:)
  qed
  have "cumcount (seen @ [r]) rs = cumcount (seen' @ [r']) rs''"
    using Cons.prems rs' by (intro Cons.IH) auto
  then show ?case
    using Cons.prems rs' cnt by (auto split: option.splits)
qed

lemma numbered_set_zone_numbered:
  "numbered [] (set_zone (numbered [] rs)) = set_zone (numbered [] rs)"
proof (rule numbered_fixed, intro allI impI)
  fix i assume "i < length (set_zone (numbered [] rs))"
  then have i: "i < length rs" by simp
  have c: "cumcount [] (set_zone (numbered [] rs)) = cumcount [] rs"
    by (rule cumcount_keys) simp_all
  have "v_index (set_zone (numbered [] rs) ! i) = v_index (numbered [] rs ! i)"
    using i by (simp add: set_zone_map)
  also have "\<dots> = nan_add (cumcount [] rs ! i) 1" using i by (simp add: numbered_def)
  finally show "v_index (set_zone (numbered [] rs) ! i)
                = nan_add (cumcount [] (set_zone (numbered [] rs)) ! i) 1"
    using c by simp
qed

lemma sort_values_fixed:
  "sort_values (set_zone (numbered [] (sort_values rs))) = set_zone (numbered [] (sort_values rs))"
  unfolding sort_values_def
  by (rule sort_key_id_if_sorted) simp

lemma in_group_by_key:
  "in_group (v, e, f) r \<longleftrightarrow> by_key r = ((0, v), (0, e), (0, f))"
  by (auto simp: in_group_def group_key_def by_key_def na_last_def split: option.splits)

lemma in_set_add_column [simp]: "x \<in> set (add_column c cols) \<longleftrightarrow> x = c \<or> x \<in> set cols"
  by (auto simp: add_column_def)

lemma add_column_idem: "c \<in> set cols \<Longrightarrow> add_column c cols = cols"
  by (simp add: add_column_def)

lemma assign_zones_InrD:
  assumes "assign_zones df = Inr df'"
  shows "''file_name'' \<in> set (columns df)" and "''variant'' \<in> set (columns df)"
    and "''emotion'' \<in> set (columns df)" and "rows df \<noteq> []"
    and "columns df' = add_column ''zone'' (add_column ''v_index'' (columns df))"
    and "rows df' = set_zone (numbered [] (sort_values (rows df)))"
  using assms
  by (auto simp: assign_zones_def Let_def set_v_index_numbered sort_values_def numbered_def
           split: if_splits)

lemma filter_by_key_rows:
  assumes "assign_zones df = Inr df'"
  shows "map (\<lambda>r. r\<lparr>v_index := a, zone := b\<rparr>) (filter (\<lambda>r. by_key r = x) (rows df'))
         = map (\<lambda>r. r\<lparr>v_index := a, zone := b\<rparr>) (filter (\<lambda>r. by_key r = x) (rows df))"
proof -
  let ?S = "sort_values (rows df)"
  have "filter (\<lambda>r. by_key r = x) (rows df')
        = map (\<lambda>r. r\<lparr>zone := Some (zone_for_row (group_max (numbered [] ?S) r) (v_index r))\<rparr>)
            (filter (\<lambda>r. by_key r = x) (numbered [] ?S))"
    by (simp add: assign_zones_InrD(6) [OF assms] set_zone_map filter_map comp_def)
  then have "map (\<lambda>r. r\<lparr>v_index := a, zone := b\<rparr>) (filter (\<lambda>r. by_key r = x) (rows df'))
        = map (\<lambda>r. r\<lparr>v_index := a, zone := b\<rparr>) (filter (\<lambda>r. by_key r = x) (numbered [] ?S))"
    by (simp add: comp_def)
  also have "\<dots> = map (\<lambda>r. r\<lparr>zone := b\<rparr>)
                      (map (\<lambda>r. r\<lparr>v_index := a\<rparr>) (filter (\<lambda>r. by_key r = x) (numbered [] ?S)))"
    by (simp add: comp_def)
  also have "map (\<lambda>r. r\<lparr>v_index := a\<rparr>) (filter (\<lambda>r. by_key r = x) (numbered [] ?S))
             = map (\<lambda>r. r\<lparr>v_index := a\<rparr>) (filter (\<lambda>r. by_key r = x) ?S)"
    by (rule filter_by_key_numbered_erase)
  also have "filter (\<lambda>r. by_key r = x) ?S = filter (\<lambda>r. by_key r = x) (rows df)"
    unfolding sort_values_def by (rule sort_key_stable)
  finally show ?thesis by (simp add: comp_def)
qed

lemma v_index_rows:
  assumes "assign_zones df = Inr df'"
  shows "map v_index (filter (in_group k) (rows df'))
         = map (\<lambda>j. Some (int j)) [Suc 0 ..< Suc (length (filter (in_group k) (rows df')))]"
proof -
  let ?N = "numbered [] (sort_values (rows df))"
  have len: "length (filter (in_group k) (rows df')) = length (filter (in_group k) (sort_values (rows df)))"
    by (simp add: assign_zones_InrD(6) [OF assms] filter_in_group_set_zone)
  have "map v_index (filter (in_group k) (rows df')) = map v_index (filter (in_group k) ?N)"
    by (simp add: assign_zones_InrD(6) [OF assms] filter_in_group_set_zone comp_def)
  then show ?thesis
    by (simp add: v_index_in_group len del: upt_Suc)
qed

lemma zone_rows:
  assumes "assign_zones df = Inr df'" and "r \<in> set (rows df')" and "group_key r = Some k"
  shows "zone r = Some (zone_for_row (Some (int (length (filter (in_group k) (rows df'))))) (v_index r))"
proof -
  let ?S = "sort_values (rows df)"
  let ?N = "numbered [] ?S"
  from assms(2) obtain r0 where r0: "r0 \<in> set ?N"
    and r: "r = r0\<lparr>zone := Some (zone_for_row (group_max ?N r0) (v_index r0))\<rparr>"
    by (auto simp: assign_zones_InrD(6) [OF assms(1)] set_zone_map)
  have k0: "group_key r0 = Some k" using assms(3) r by simp
  have len: "length (filter (in_group k) (rows df')) = length (filter (in_group k) ?S)"
    by (simp add: assign_zones_InrD(6) [OF assms(1)] filter_in_group_set_zone)
  have "r0 \<in> set (filter (in_group k) ?N)" using r0 k0 by (simp add: in_group_def)
  then have "0 < length (filter (in_group k) ?N)" by (metis length_pos_if_in_set)
  then have pos: "0 < length (filter (in_group k) ?S)" by simp
  have "group_max ?N r0 = Some (int (length (filter (in_group k) ?S)))"
    using k0 pos by (rule group_max_numbered)
  then show ?thesis using r len by simp
qed

lemma assign_zones_idem:
  assumes "assign_zones df = Inr df'"
  shows "assign_zones df' = Inr df'"
proof -
  note D = assign_zones_InrD [OF assms]
  let ?Z = "set_zone (numbered [] (sort_values (rows df)))"
  have ne: "?Z \<noteq> []"
  proof -
    have "length ?Z = length (rows df)" by (simp add: sort_values_def)
    with D(4) show ?thesis by (metis length_0_conv)
  qed
  have cols: "add_column ''zone'' (add_column ''v_index'' (columns df')) = columns df'"
    by (simp add: D(5) add_column_idem)
  have rows: "set_zone (set_v_index (sort_values (rows df'))) = rows df'"
    by (simp add: D(6) sort_values_fixed set_v_index_numbered numbered_set_zone_numbered set_zone_idem)
  have sv: "set_v_index (sort_values (rows df')) = ?Z"
    by (simp add: D(6) sort_values_fixed set_v_index_numbered numbered_set_zone_numbered)
  have "''file_name'' \<in> set (columns df')" "''variant'' \<in> set (columns df')"
       "''emotion'' \<in> set (columns df')"
    using D(1-3) by (simp_all add: D(5))
  then show ?thesis
    using ne sv rows cols by (simp add: assign_zones_def Let_def)
qed


section \<open>The sample data, evaluated\<close>

lemma prepare_scenario:
  "prepare_full_dataframe lower_basic True scenario_file empty_file empty_file = Inr scenario_df"
  by (simp add: prepare_full_dataframe_def loaded_def pd_concat_def load_variant_def
      scenario_file_def empty_file_def scenario_df_def scenario_row_def add_column_def reindex_def
      not_consonant_def lower_basic_def lower_cp_def str_consonant_def
      with_emotion_def with_dur_s_def dur_s_of_def Let_def)

lemma assign_scenario:
  "assign_zones scenario_df =
     Inr \<lparr>columns = [''file_name'', ''emotion'', ''transcription_phonemes'', ''percent_duration'',
                 ''variant'', ''dur_s'', ''v_index'', ''zone''],
      rows = map (\<lambda>(p, i). (scenario_row p)\<lparr>variant := Some label_rus, v_index := Some i,
                      zone := Some str_nachalo\<rparr>) [(10, 1), (20, 2), (70, 3)]\<rparr>"
  by (simp add: assign_zones_def scenario_df_def scenario_row_def add_column_def
      sort_values_def by_key_def na_last_def set_v_index_def set_zone_def group_max_def
      group_key_def in_group_def nan_add_def zone_for_row_def nan_le_def Let_def)

lemma overall_scenario:
  "compute_overall_table scenario_df =
     Inr \<lparr>labels = [Emotsiya, Variant, Sredniy_pct_dlitelnosti, SD_pct,
                   Srednyaya_dlitelnost_s, SD_dlitelnosti_s],
          body = [((str_neitralnaya, label_rus), [Some (100 / 3), Some (sqrt (3100 / 3)), None, None])]\<rparr>"
  by (simp add: compute_overall_table_def missing_column_def scenario_df_def scenario_row_def
      groupby_def emotion_variant_def agg_def agg_mean_def agg_std_def Let_def power2_eq_square)

lemma sd_bounds: "3214 / 100 < sqrt (3100 / 3 :: real)" "sqrt (3100 / 3 :: real) < 3215 / 100"
  by (rule real_less_rsqrt, simp add: power2_eq_square) (rule real_less_lsqrt, simp_all add: power2_eq_square)


section \<open>Properties of the assembler, the aggregators and the run\<close>

lemma columns_loaded:
  "set (columns (loaded rus bil kab)) = insert ''variant'' (file_columns rus bil kab)"
  by (auto simp: loaded_def pd_concat_def load_variant_def file_columns_def)

lemma with_emotion_InrD:
  assumes "with_emotion lower df = Inr df'"
  shows "''emotion'' \<in> set (columns df) \<or> ''file_name'' \<in> set (columns df)"
    and "set (columns df') = insert ''emotion'' (set (columns df))"
    and "map (\<lambda>r. r\<lparr>emotion := a\<rparr>) (rows df') = map (\<lambda>r. r\<lparr>emotion := a\<rparr>) (rows df)"
  using assms by (auto simp: with_emotion_def split: if_splits)

lemma with_dur_s_InrD:
  assumes "with_dur_s df = Inr df'"
  shows "''percent_duration'' \<in> set (columns df)"
    and "set (columns df') = insert ''dur_s'' (set (columns df))"
    and "rows df' = map (\<lambda>r. r\<lparr>dur_s := dur_s_of (columns df) r\<rparr>) (rows df)"
  using assms by (auto simp: with_dur_s_def split: if_splits)

lemma prepare_InrD:
  assumes "prepare_full_dataframe lower str_ok rus bil kab = Inr df"
  obtains df1 where
    "''transcription_phonemes'' \<in> set (columns (loaded rus bil kab))"
    "str_ok"
    "with_emotion lower ((loaded rus bil kab)\<lparr>rows := filter (not_consonant lower) (rows (loaded rus bil kab))\<rparr>) = Inr df1"
    "with_dur_s df1 = Inr df"
  using assms
  by (auto simp: prepare_full_dataframe_def Let_def split: if_splits sum.splits)

lemma prepare_Inr_iff:
  "(\<exists>df. prepare_full_dataframe lower str_ok rus bil kab = Inr df) \<longleftrightarrow>
     ''transcription_phonemes'' \<in> file_columns rus bil kab
   \<and> str_ok
   \<and> (''emotion'' \<in> file_columns rus bil kab \<or> ''file_name'' \<in> file_columns rus bil kab)
   \<and> ''percent_duration'' \<in> file_columns rus bil kab"
  by (auto simp: prepare_full_dataframe_def Let_def columns_loaded with_emotion_def with_dur_s_def
           split: if_splits sum.splits)

lemma prepare_columns:
  assumes "prepare_full_dataframe lower str_ok rus bil kab = Inr df"
  shows "set (columns df) = {''variant'', ''emotion'', ''dur_s''} \<union> file_columns rus bil kab"
proof -
  from assms obtain df1 where
    1: "with_emotion lower ((loaded rus bil kab)\<lparr>rows := filter (not_consonant lower) (rows (loaded rus bil kab))\<rparr>) = Inr df1"
    and 2: "with_dur_s df1 = Inr df"
    by (rule prepare_InrD)
  show ?thesis
    using with_emotion_InrD(2) [OF 1] with_dur_s_InrD(2) [OF 2]
    by (auto simp: columns_loaded)
qed

lemma prepare_rows:
  assumes "prepare_full_dataframe lower str_ok rus bil kab = Inr df"
  shows "map underived (rows df) = map underived (filter (not_consonant lower) (rows (loaded rus bil kab)))"
proof -
  from assms obtain df1 where
    1: "with_emotion lower ((loaded rus bil kab)\<lparr>rows := filter (not_consonant lower) (rows (loaded rus bil kab))\<rparr>) = Inr df1"
    and 2: "with_dur_s df1 = Inr df"
    by (rule prepare_InrD)
  have "map (\<lambda>r. r\<lparr>emotion := None\<rparr>) (rows df1)
        = map (\<lambda>r. r\<lparr>emotion := None\<rparr>) (filter (not_consonant lower) (rows (loaded rus bil kab)))"
    using with_emotion_InrD(3) [OF 1] by simp
  then have "map (\<lambda>r. r\<lparr>dur_s := None\<rparr>) (map (\<lambda>r. r\<lparr>emotion := None\<rparr>) (rows df1))
        = map (\<lambda>r. r\<lparr>dur_s := None\<rparr>) (map (\<lambda>r. r\<lparr>emotion := None\<rparr>) (filter (not_consonant lower) (rows (loaded rus bil kab))))"
    by (simp only:)
  moreover have "map underived (rows df) = map (\<lambda>r. r\<lparr>dur_s := None\<rparr>) (map (\<lambda>r. r\<lparr>emotion := None\<rparr>) (rows df1))"
    by (simp add: with_dur_s_InrD(3) [OF 2] underived_def comp_def)
  ultimately show ?thesis by (simp add: underived_def comp_def)
qed

lemma prepare_dur_s:
  assumes "prepare_full_dataframe lower str_ok rus bil kab = Inr df" and "r \<in> set (rows df)"
  shows "dur_s r =
          (if ''total_duration'' \<in> file_columns rus bil kab
           then scaled_duration (percent_duration r) (total_duration r)
           else if ''duration'' \<in> file_columns rus bil kab then duration r
           else None)"
proof -
  from assms(1) obtain df1 where
    1: "with_emotion lower ((loaded rus bil kab)\<lparr>rows := filter (not_consonant lower) (rows (loaded rus bil kab))\<rparr>) = Inr df1"
    and 2: "with_dur_s df1 = Inr df"
    by (rule prepare_InrD)
  have c: "set (columns df1) = insert ''emotion'' (insert ''variant'' (file_columns rus bil kab))"
    using with_emotion_InrD(2) [OF 1] by (simp add: columns_loaded)
  from assms(2) obtain r1 where "r = r1\<lparr>dur_s := dur_s_of (columns df1) r1\<rparr>"
    by (auto simp: with_dur_s_InrD(3) [OF 2])
  then show ?thesis by (simp add: dur_s_of_def c)
qed

lemma prepare_Inl:
  assumes "prepare_full_dataframe lower str_ok rus bil kab = Inl e"
  shows "e = ValueError No_transcription_phonemes \<or> e = AttributeError
       \<or> e = ValueError No_emotion_or_file_name \<or> e = ValueError No_percent_duration"
  using assms
  by (auto simp: prepare_full_dataframe_def Let_def with_emotion_def with_dur_s_def
           split: if_splits sum.splits)

lemma assign_zones_Inl:
  assumes "assign_zones df = Inl e"
  shows "e = ValueError No_file_name \<and> ''file_name'' \<notin> set (columns df)
       \<or> e = KeyError ''variant'' \<or> e = KeyError ''emotion''
       \<or> e = ValueError Vectorize_size_0 \<and> ''file_name'' \<in> set (columns df)"
  using assms by (auto simp: assign_zones_def Let_def split: if_splits)

lemma compute_zone_table_Inl:
  assumes "compute_zone_table df = Inl e"
  shows "assign_zones df = Inl e \<or> (\<exists>c. e = KeyError c)"
  using assms by (auto simp: compute_zone_table_def split: sum.splits option.splits)

lemma compute_overall_table_Inr:
  assumes "''emotion'' \<in> set (columns df)" "''variant'' \<in> set (columns df)"
    "''percent_duration'' \<in> set (columns df)"
  shows "compute_overall_table df =
     Inr \<lparr>labels =
            (if ''dur_s'' \<in> set (columns df)
             then [Emotsiya, Variant, Sredniy_pct_dlitelnosti, SD_pct,
                   Srednyaya_dlitelnost_s, SD_dlitelnosti_s]
             else [Emotsiya, Variant, Sredniy_pct_dlitelnosti, SD_pct]),
          body = map (\<lambda>(k, g). (k, agg (''dur_s'' \<in> set (columns df)) g))
                   (groupby emotion_variant (rows df))\<rparr>"
  using assms by (simp add: compute_overall_table_def missing_column_def)

lemma prepare_overall:
  assumes "prepare_full_dataframe lower str_ok rus bil kab = Inr df"
  shows "compute_overall_table df =
     Inr \<lparr>labels = [Emotsiya, Variant, Sredniy_pct_dlitelnosti, SD_pct,
                   Srednyaya_dlitelnost_s, SD_dlitelnosti_s],
          body = map (\<lambda>(k, g). (k, agg True g)) (groupby emotion_variant (rows df))\<rparr>"
proof -
  have p: "''percent_duration'' \<in> file_columns rus bil kab"
    using assms prepare_Inr_iff [of lower str_ok rus bil kab] by blast
  have "''emotion'' \<in> set (columns df)" "''variant'' \<in> set (columns df)"
    "''percent_duration'' \<in> set (columns df)" "''dur_s'' \<in> set (columns df)"
    using p by (simp_all add: prepare_columns [OF assms])
  then show ?thesis by (simp add: compute_overall_table_Inr)
qed

lemma groupby_keys:
  "map fst (groupby key rs) = sort (remdups (present (map key rs)))"
  by (simp add: groupby_def comp_def)

lemma set_present: "set (present xs) = {x. Some x \<in> set xs}"
  by (induction xs rule: present.induct) auto

lemma groupby_distinct: "distinct (map fst (groupby key rs))"
  by (simp add: groupby_keys)

lemma groupby_set: "set (map fst (groupby key rs)) = {k. \<exists>r \<in> set rs. key r = Some k}"
  by (force simp: groupby_keys set_present)

lemma groupby_sorted: "sorted (map fst (groupby key rs))"
  by (simp add: groupby_keys)

lemma groupby_group:
  "(k, g) \<in> set (groupby key rs) \<Longrightarrow> g = filter (\<lambda>r. key r = Some k) rs \<and> g \<noteq> []"
  by (auto simp: groupby_def set_present filter_empty_conv)

lemma prepare_no_name:
  "prepare_full_dataframe lower_basic True no_name_file empty_file empty_file =
     Inr \<lparr>columns = [''emotion'', ''transcription_phonemes'', ''percent_duration'',
                    ''variant'', ''dur_s''],
          rows = [(file_row None (Some [97]) 10)\<lparr>variant := Some label_rus\<rparr>]\<rparr>"
  by (simp add: prepare_full_dataframe_def loaded_def pd_concat_def load_variant_def
      no_name_file_def empty_file_def file_row_def add_column_def reindex_def
      not_consonant_def lower_basic_def lower_cp_def str_consonant_def
      with_emotion_def with_dur_s_def dur_s_of_def Let_def)

lemma main_no_name:
  "main lower_basic True no_name_file empty_file empty_file =
     ([Overall_title,
       Overall_table
         \<lparr>labels = [Emotsiya, Variant, Sredniy_pct_dlitelnosti, SD_pct,
                     Srednyaya_dlitelnost_s, SD_dlitelnosti_s],
          body = [((str_neitralnaya, label_rus), [Some 10, None, None, None])]\<rparr>],
      Some (ValueError No_file_name))"
  by (simp add: main_def prepare_no_name compute_overall_table_def missing_column_def
      compute_zone_table_def assign_zones_def file_row_def
      groupby_def emotion_variant_def agg_def agg_mean_def agg_std_def Let_def)

lemma main_no_percent:
  "main lower_basic True no_percent_file empty_file empty_file =
     ([], Some (ValueError No_percent_duration))"
  by (simp add: main_def prepare_full_dataframe_def loaded_def pd_concat_def load_variant_def
      no_percent_file_def empty_file_def file_row_def add_column_def reindex_def
      not_consonant_def lower_basic_def lower_cp_def str_consonant_def
      with_emotion_def with_dur_s_def dur_s_of_def Let_def detect_emotion_def py_str_def)

lemma assign_two: "assign_zones two_df = Inr two_zoned"
  by (simp add: assign_zones_def two_df_def two_zoned_def two_row_def file_row_def add_column_def
      sort_values_def by_key_def na_last_def set_v_index_def set_zone_def group_max_def
      group_key_def in_group_def nan_add_def nan_sub_def nan_gt_def zone_for_row_def nan_le_def Let_def)

lemma prepare_timed:
  "prepare_full_dataframe lower_basic True timed_file empty_file empty_file = Inr timed_df"
  by (simp add: prepare_full_dataframe_def loaded_def pd_concat_def load_variant_def
      timed_file_def timed_df_def empty_file_def file_row_def add_column_def reindex_def
      not_consonant_def lower_basic_def lower_cp_def str_consonant_def
      with_emotion_def with_dur_s_def dur_s_of_def scaled_duration_def Let_def)

lemma prepare_mixed:
  "prepare_full_dataframe lower_basic True mixed_file empty_file empty_file = Inr mixed_df"
  by (simp add: prepare_full_dataframe_def loaded_def pd_concat_def load_variant_def
      mixed_file_def mixed_df_def empty_file_def file_row_def add_column_def reindex_def
      not_consonant_def lower_basic_def lower_cp_def str_consonant_def
      with_emotion_def with_dur_s_def dur_s_of_def scaled_duration_def Let_def)

lemma agg_all_missing:
  assumes "\<forall>c \<in> set cells. c = None"
  shows "agg_mean cells = None" and "agg_std cells = None"
proof -
  have "present cells = []" using assms by (induction cells rule: present.induct) auto
  then show "agg_mean cells = None" and "agg_std cells = None"
    by (simp_all add: agg_mean_def agg_std_def)
qed

lemma compute_overall_table_gate:
  assumes "compute_overall_table d = Inr t"
  shows "Srednyaya_dlitelnost_s \<in> set (labels t) \<longleftrightarrow> ''dur_s'' \<in> set (columns d)"
    and "SD_dlitelnosti_s \<in> set (labels t) \<longleftrightarrow> ''dur_s'' \<in> set (columns d)"
  using assms by (auto simp: compute_overall_table_def split: option.splits if_splits)

lemma starts_with_iff: "starts_with sub s \<longleftrightarrow> (\<exists>q. s = sub @ q)"
  by (induction sub s rule: starts_with.induct) auto

lemma contains_iff: "contains sub s \<longleftrightarrow> (\<exists>p q. s = p @ sub @ q)"
proof (induction s)
  case Nil
  then show ?case by auto
next
  case (Cons c cs)
  show ?case
  proof
    assume "contains sub (c # cs)"
    then consider "starts_with sub (c # cs)" | "contains sub cs" by auto
    then show "\<exists>p q. c # cs = p @ sub @ q"
    proof cases
      case 1
      then obtain q where "c # cs = sub @ q" by (auto simp: starts_with_iff)
      then have "c # cs = [] @ sub @ q" by simp
      then show ?thesis by blast
    next
      case 2
      then obtain p q where "cs = p @ sub @ q" using Cons.IH by auto
      then have "c # cs = (c # p) @ sub @ q" by simp
      then show ?thesis by blast
    qed
  next
    assume "\<exists>p q. c # cs = p @ sub @ q"
    then obtain p q where pq: "c # cs = p @ sub @ q" by blast
    show "contains sub (c # cs)"
    proof (cases p)
      case Nil
      with pq have "starts_with sub (c # cs)" by (auto simp: starts_with_iff)
      then show ?thesis by simp
    next
      case (Cons a p')
      with pq have "cs = p' @ sub @ q" by simp
      then have "contains sub cs" using Cons.IH by blast
      then show ?thesis by simp
    qed
  qed
qed

lemma assign_ten: "assign_zones ten_df = Inr ten_zoned"
  by (simp add: assign_zones_def ten_df_def ten_zoned_def scenario_row_def add_column_def
      sort_values_def by_key_def na_last_def set_v_index_def set_zone_def group_max_def
      group_key_def in_group_def nan_add_def nan_sub_def nan_gt_def zone_for_row_def nan_le_def Let_def)

lemma zone_strings_distinct:
  "str_nachalo \<noteq> str_konets" "str_nachalo \<noteq> str_seredina" "str_konets \<noteq> str_seredina"
  by (simp_all add: str_nachalo_def str_konets_def str_seredina_def)

section \<open>The claims\<close>

text \<open>
  Claim C1. In the output of the zone assigner, a row of a group of \<open>n\<close> rows carries an
  index \<open>i\<close> between 1 and \<open>n\<close>, and its zone depends on \<open>i\<close> and \<open>n\<close> alone: the
  start zone if \<open>i \<le> 3\<close>, else the end zone if \<open>i > n - 3\<close>, else the middle zone. So
  the start zone wins where both conditions hold, and in a group of ten rows the start
  zone is at indices 1 to 3, the end zone at 8 to 10, the middle zone at 4 to 7.
\<close>

theorem zone_rule:
  assumes "assign_zones df = Inr df'" and "r \<in> set (rows df')" and "group_key r = Some k"
    and "n = int (length (filter (in_group k) (rows df')))"
  shows "\<exists>i. v_index r = Some i \<and> 1 \<le> i \<and> i \<le> n
           \<and> zone r = Some (if i \<le> 3 then str_nachalo
                            else if i > n - 3 then str_konets
                            else str_seredina)
           \<and> (i \<le> 3 \<and> i > n - 3 \<longrightarrow> zone r = Some str_nachalo)
           \<and> (n = 10 \<longrightarrow> (zone r = Some str_nachalo \<longleftrightarrow> i \<in> {1, 2, 3})
                         \<and> (zone r = Some str_konets \<longleftrightarrow> i \<in> {8, 9, 10})
                         \<and> (zone r = Some str_seredina \<longleftrightarrow> i \<in> {4, 5, 6, 7}))"
proof -
  have "r \<in> set (filter (in_group k) (rows df'))"
    using assms(2,3) by (simp add: in_group_def)
  then have "v_index r \<in> set (map v_index (filter (in_group k) (rows df')))"
    by (simp only: set_map) (rule imageI)
  then obtain j where j: "v_index r = Some (int j)" "Suc 0 \<le> j" "int j \<le> n"
    unfolding v_index_rows [OF assms(1)] using assms(4) by auto
  have z: "zone r = Some (zone_for_row (Some n) (Some (int j)))"
    using zone_rows [OF assms(1-3)] assms(4) j(1) by simp
  have rule: "zone r = Some (if int j \<le> 3 then str_nachalo
                            else if int j > n - 3 then str_konets
                            else str_seredina)"
    unfolding z by (simp add: zone_for_row_def nan_le_def nan_gt_def nan_sub_def)
  have ten: "n = 10 \<longrightarrow> (zone r = Some str_nachalo \<longleftrightarrow> int j \<in> {1, 2, 3})
                         \<and> (zone r = Some str_konets \<longleftrightarrow> int j \<in> {8, 9, 10})
                         \<and> (zone r = Some str_seredina \<longleftrightarrow> int j \<in> {4, 5, 6, 7})"
    using j(2,3) unfolding rule by (auto simp: zone_strings_distinct zone_strings_distinct [symmetric])
  show ?thesis
    using j rule ten by (intro exI [of _ "int j"]) auto
qed

text \<open>The rule on the utterance of ten vowels.\<close>

theorem zone_rule_witness:
  "assign_zones ten_df = Inr ten_zoned
   \<and> rows ten_zoned ! 7 \<in> set (rows ten_zoned)
   \<and> group_key (rows ten_zoned ! 7) = Some (label_rus, str_neitralnaya, [117, 49])
   \<and> int (length (filter (in_group (label_rus, str_neitralnaya, [117, 49])) (rows ten_zoned))) = 10
   \<and> v_index (rows ten_zoned ! 7) = Some 8
   \<and> zone (rows ten_zoned ! 7) = Some str_konets"
proof -
  let ?r = "rows ten_zoned ! 7"
  let ?k = "(label_rus, str_neitralnaya, [117, 49])"
  have r: "?r \<in> set (rows ten_zoned)"
    by (rule nth_mem) (simp add: ten_zoned_def)
  have k: "group_key ?r = Some ?k"
    by (simp add: ten_zoned_def scenario_row_def group_key_def)
  have n: "(10 :: int) = int (length (filter (in_group ?k) (rows ten_zoned)))"
    by (simp add: ten_zoned_def scenario_row_def group_key_def in_group_def)
  have v: "v_index ?r = Some 8"
    by (simp add: ten_zoned_def)
  from zone_rule [OF assign_ten r k n] v
  have "zone ?r = Some str_konets" by auto
  then show ?thesis using assign_ten r k n v by simp
qed

text \<open>
  Claim C2, as stated, fails: with an emotion column and no file name column the
  assembler succeeds, the overall table is printed, and only then does the zone assigner
  raise the error for the missing column.
\<close>

theorem schema_error_after_output:
  "main lower_basic True no_name_file empty_file empty_file =
     ([Overall_title,
       Overall_table
         \<lparr>labels = [Emotsiya, Variant, Sredniy_pct_dlitelnosti, SD_pct,
                     Srednyaya_dlitelnost_s, SD_dlitelnosti_s],
          body = [((str_neitralnaya, label_rus), [Some 10, None, None, None])]\<rparr>],
      Some (ValueError No_file_name))"
  by (rule main_no_name)

text \<open>
  Claim C2, amended. When the run ends with a \<open>ValueError\<close>, nothing has been printed if
  the error names \<open>transcription_phonemes\<close>, \<open>emotion\<close> or \<open>file_name\<close>, or
  \<open>percent_duration\<close>: these come from the assembler. The error for the missing
  \<open>file_name\<close> column comes from the zone assigner (as does numpy's error on an empty
  dataset), after the title and the overall table have been printed.
\<close>

theorem schema_error_output:
  assumes "main lower str_ok rus bil kab = (out, Some (ValueError m))"
  shows "if m = No_file_name \<or> m = Vectorize_size_0
         then out = printed_overall lower str_ok rus bil kab \<and> length out = 2
         else out = []"
proof (cases "prepare_full_dataframe lower str_ok rus bil kab")
  case (Inl e)
  then have "out = []" and "e = ValueError m" using assms by (simp_all add: main_def)
  then show ?thesis using prepare_Inl [OF Inl] by auto
next
  case (Inr df)
  note ov = prepare_overall [OF Inr]
  show ?thesis
  proof (cases "compute_zone_table df")
    case (Inl e)
    then have out: "out = printed_overall lower str_ok rus bil kab" "length out = 2" and e: "e = ValueError m"
      using assms Inr ov by (auto simp: main_def printed_overall_def)
    from compute_zone_table_Inl [OF Inl] e have "assign_zones df = Inl (ValueError m)" by auto
    from assign_zones_Inl [OF this] have "m = No_file_name \<or> m = Vectorize_size_0" by auto
    then show ?thesis using out by simp
  next
    case (Inr t)
    then show ?thesis using assms \<open>prepare_full_dataframe lower str_ok rus bil kab = Inr df\<close> ov
      by (simp add: main_def)
  qed
qed

text \<open>
  Both cases on the sample spreadsheets.
\<close>

theorem schema_error_output_witness:
  "main lower_basic True no_percent_file empty_file empty_file = ([], Some (ValueError No_percent_duration))
   \<and> snd (main lower_basic True no_name_file empty_file empty_file) = Some (ValueError No_file_name)
   \<and> fst (main lower_basic True no_name_file empty_file empty_file)
       = printed_overall lower_basic True no_name_file empty_file empty_file
   \<and> length (fst (main lower_basic True no_name_file empty_file empty_file)) = 2"
proof -
  have c: "No_file_name = No_file_name \<or> No_file_name = Vectorize_size_0" by simp
  note w = schema_error_output [OF main_no_name, unfolded if_P [OF c]]
  have f: "fst (main lower_basic True no_name_file empty_file empty_file) =
     [Overall_title,
       Overall_table
         \<lparr>labels = [Emotsiya, Variant, Sredniy_pct_dlitelnosti, SD_pct,
                     Srednyaya_dlitelnost_s, SD_dlitelnosti_s],
          body = [((str_neitralnaya, label_rus), [Some 10, None, None, None])]\<rparr>]"
    by (simp add: main_no_name)
  have "fst (main lower_basic True no_name_file empty_file empty_file)
                = printed_overall lower_basic True no_name_file empty_file empty_file
             \<and> length (fst (main lower_basic True no_name_file empty_file empty_file)) = 2"
    unfolding f by (rule w)
  moreover have "snd (main lower_basic True no_name_file empty_file empty_file)
                 = Some (ValueError No_file_name)"
    by (simp add: main_no_name)
  ultimately show ?thesis
    using main_no_percent by blast
qed

text \<open>
  Claim C3. The output of the zone assigner is sorted by the key columns, and the sort
  is stable: the rows with any given key, and so the rows of any group, stand in the
  order they had in the input, unchanged but for the two new columns; \<open>v_index\<close> counts
  the rows of a group in that order, from 1.
\<close>

theorem sort_is_stable:
  assumes "assign_zones df = Inr df'"
  shows "sorted (map by_key (rows df'))
       \<and> (\<forall>x. map unzoned (filter (\<lambda>r. by_key r = x) (rows df'))
              = map unzoned (filter (\<lambda>r. by_key r = x) (rows df)))
       \<and> (\<forall>k. map unzoned (filter (in_group k) (rows df'))
              = map unzoned (filter (in_group k) (rows df)))
       \<and> (\<forall>k j. j < length (filter (in_group k) (rows df'))
              \<longrightarrow> v_index (filter (in_group k) (rows df') ! j) = Some (int j + 1))"
proof (intro conjI allI impI)
  show "sorted (map by_key (rows df'))"
    by (simp add: assign_zones_InrD(6) [OF assms] sort_values_def)
next
  fix x
  show "map unzoned (filter (\<lambda>r. by_key r = x) (rows df'))
        = map unzoned (filter (\<lambda>r. by_key r = x) (rows df))"
    unfolding unzoned_def by (rule filter_by_key_rows [OF assms])
next
  fix k :: "pystr \<times> pystr \<times> pystr"
  obtain v e f where k: "k = (v, e, f)" by (cases k)
  show "map unzoned (filter (in_group k) (rows df')) = map unzoned (filter (in_group k) (rows df))"
    unfolding unzoned_def k in_group_by_key by (rule filter_by_key_rows [OF assms])
next
  fix k j assume j: "j < length (filter (in_group k) (rows df'))"
  then have "v_index (filter (in_group k) (rows df') ! j)
             = map v_index (filter (in_group k) (rows df')) ! j"
    by simp
  also have "\<dots> = Some (int j + 1)"
    unfolding v_index_rows [OF assms] using j by (simp del: upt_Suc)
  finally show "v_index (filter (in_group k) (rows df') ! j) = Some (int j + 1)" .
qed

text \<open>
  The two alternating utterances: the second group keeps its rows in input order.
\<close>

theorem sort_is_stable_witness:
  "assign_zones two_df = Inr two_zoned
   \<and> map unzoned (filter (in_group (label_rus, str_neitralnaya, [117, 50])) (rows two_zoned))
       = [two_row [117, 50] 40, two_row [117, 50] 60]
   \<and> map v_index (filter (in_group (label_rus, str_neitralnaya, [117, 50])) (rows two_zoned))
       = [Some 1, Some 2]"
proof -
  let ?k = "(label_rus, str_neitralnaya, [117, 50])"
  have "map unzoned (filter (in_group ?k) (rows two_zoned))
        = map unzoned (filter (in_group ?k) (rows two_df))"
    using sort_is_stable [OF assign_two] by blast
  also have "\<dots> = [two_row [117, 50] 40, two_row [117, 50] 60]"
    by (simp add: two_df_def two_row_def file_row_def in_group_def group_key_def unzoned_def)
  finally have a: "map unzoned (filter (in_group ?k) (rows two_zoned))
        = [two_row [117, 50] 40, two_row [117, 50] 60]" .
  have "map v_index (filter (in_group ?k) (rows two_zoned)) = [Some 1, Some 2]"
    by (simp add: two_zoned_def two_row_def file_row_def in_group_def group_key_def)
  then show ?thesis using a assign_two by simp
qed

text \<open>
  Claim C4. In the output of the zone assigner the indices of a group of \<open>n\<close> rows are
  1, 2, ..., \<open>n\<close> in row order: no index repeats, and the set of indices is exactly
  \<open>{1, ..., n}\<close>.
\<close>

theorem v_index_exactly_1_to_n:
  assumes "assign_zones df = Inr df'" and "n = length (filter (in_group k) (rows df'))"
  shows "map v_index (filter (in_group k) (rows df')) = map (\<lambda>j. Some (int j)) [1 ..< Suc n]
       \<and> distinct (map v_index (filter (in_group k) (rows df')))
       \<and> set (map v_index (filter (in_group k) (rows df'))) = Some ` {1 .. int n}"
proof -
  have m: "map v_index (filter (in_group k) (rows df')) = map (\<lambda>j. Some (int j)) [1 ..< Suc n]"
    using v_index_rows [OF assms(1), of k] assms(2) by simp
  have d: "distinct (map (\<lambda>j. Some (int j)) [1 ..< Suc n])"
    by (simp add: distinct_map inj_on_def del: upt_Suc)
  have "int ` {1 ..< Suc n} = {1 .. int n}"
  proof
    show "int ` {1 ..< Suc n} \<subseteq> {1 .. int n}" by auto
    show "{1 .. int n} \<subseteq> int ` {1 ..< Suc n}"
    proof
      fix i assume "i \<in> {1 .. int n}"
      then have "i = int (nat i)" "nat i \<in> {1 ..< Suc n}" by auto
      then show "i \<in> int ` {1 ..< Suc n}" by (rule image_eqI)
    qed
  qed
  then have s: "set (map (\<lambda>j. Some (int j)) [1 ..< Suc n]) = Some ` {1 .. int n}"
    by (simp add: image_image [symmetric] del: upt_Suc)
  show ?thesis using m d s by simp
qed

text \<open>
  The first group of the two alternating utterances.
\<close>

theorem v_index_exactly_1_to_n_witness:
  "assign_zones two_df = Inr two_zoned
   \<and> length (filter (in_group (label_rus, str_neitralnaya, [117, 49])) (rows two_zoned)) = 2
   \<and> set (map v_index (filter (in_group (label_rus, str_neitralnaya, [117, 49])) (rows two_zoned)))
       = {Some 1, Some 2}"
proof -
  let ?k = "(label_rus, str_neitralnaya, [117, 49])"
  have n: "2 = length (filter (in_group ?k) (rows two_zoned))"
    by (simp add: two_zoned_def two_row_def file_row_def in_group_def group_key_def)
  have i: "{1 .. int 2} = {1, 2}" by auto
  have "set (map v_index (filter (in_group ?k) (rows two_zoned))) = Some ` {1 .. int 2}"
    using v_index_exactly_1_to_n [OF assign_two n] by blast
  then have "set (map v_index (filter (in_group ?k) (rows two_zoned))) = {Some 1, Some 2}"
    unfolding i by (simp only: image_insert image_empty)
  then show ?thesis using assign_two n [symmetric] by blast
qed

text \<open>
  Claim C5. The zone assigner is idempotent: where it succeeds, it succeeds again on
  its own output and returns that output unchanged, so every row keeps its \<open>v_index\<close>
  and its zone.
\<close>

theorem assign_zones_idempotent:
  assumes "assign_zones df = Inr df'"
  shows "\<exists>df''. assign_zones df' = Inr df''
           \<and> map v_index (rows df'') = map v_index (rows df')
           \<and> map zone (rows df'') = map zone (rows df')
           \<and> df'' = df'"
  using assign_zones_idem [OF assms] by simp

text \<open>
  The two alternating utterances, assigned twice.
\<close>

theorem assign_zones_idempotent_witness:
  "assign_zones two_df = Inr two_zoned \<and> assign_zones two_zoned = Inr two_zoned"
  using assign_zones_idempotent [OF assign_two] assign_two by simp

text \<open>
  Claim C6, as stated, fails: the sample scenario has no duration column in any
  spreadsheet, and the overall table of its assembled dataset still has the two columns
  of duration statistics, with missing values.
\<close>

theorem no_duration_source_keeps_columns:
  "''total_duration'' \<notin> file_columns scenario_file empty_file empty_file
   \<and> ''duration'' \<notin> file_columns scenario_file empty_file empty_file
   \<and> prepare_full_dataframe lower_basic True scenario_file empty_file empty_file = Inr scenario_df
   \<and> compute_overall_table scenario_df =
       Inr \<lparr>labels = [Emotsiya, Variant, Sredniy_pct_dlitelnosti, SD_pct,
                     Srednyaya_dlitelnost_s, SD_dlitelnosti_s],
            body = [((str_neitralnaya, label_rus),
                     [Some (100 / 3), Some (sqrt (3100 / 3)), None, None])]\<rparr>"
  using prepare_scenario overall_scenario
  by (simp add: file_columns_def scenario_file_def empty_file_def)

text \<open>
  Claim C6, amended. The overall table of an assembled dataset has one row for every
  pair of an emotion and a variant that occurs in a row of the dataset, each pair once,
  in ascending order, with the mean and the sample standard deviation of
  \<open>percent_duration\<close> and of \<open>dur_s\<close> over the rows of the pair. The columns of the
  duration statistics are present exactly when the frame has a \<open>dur_s\<close> column, and an
  assembled dataset always has one; without a duration source the two statistics are
  missing in every row.
\<close>

theorem overall_table_rows:
  assumes "prepare_full_dataframe lower str_ok rus bil kab = Inr df"
  shows "(\<forall>d t'. compute_overall_table d = Inr t' \<longrightarrow>
            (Srednyaya_dlitelnost_s \<in> set (labels t') \<longleftrightarrow> ''dur_s'' \<in> set (columns d))
          \<and> (SD_dlitelnosti_s \<in> set (labels t') \<longleftrightarrow> ''dur_s'' \<in> set (columns d)))
       \<and> ''dur_s'' \<in> set (columns df)
       \<and> (\<exists>t. compute_overall_table df = Inr t
           \<and> labels t = [Emotsiya, Variant, Sredniy_pct_dlitelnosti, SD_pct,
                         Srednyaya_dlitelnost_s, SD_dlitelnosti_s]
           \<and> distinct (map fst (body t)) \<and> sorted (map fst (body t))
           \<and> set (map fst (body t))
               = {(e, v). \<exists>r \<in> set (rows df). emotion r = Some e \<and> variant r = Some v}
           \<and> (\<forall>(k, stats) \<in> set (body t).
                 stats = [agg_mean (map percent_duration (filter (\<lambda>r. emotion_variant r = Some k) (rows df))),
                          agg_std (map percent_duration (filter (\<lambda>r. emotion_variant r = Some k) (rows df))),
                          agg_mean (map dur_s (filter (\<lambda>r. emotion_variant r = Some k) (rows df))),
                          agg_std (map dur_s (filter (\<lambda>r. emotion_variant r = Some k) (rows df)))])
           \<and> (''total_duration'' \<notin> file_columns rus bil kab \<and> ''duration'' \<notin> file_columns rus bil kab
                \<longrightarrow> (\<forall>(k, stats) \<in> set (body t). stats ! 2 = None \<and> stats ! 3 = None)))"
proof -
  let ?t = "\<lparr>labels = [Emotsiya, Variant, Sredniy_pct_dlitelnosti, SD_pct,
                     Srednyaya_dlitelnost_s, SD_dlitelnosti_s],
            body = map (\<lambda>(k, g). (k, agg True g)) (groupby emotion_variant (rows df))\<rparr>"
  have gate: "\<forall>d t'. compute_overall_table d = Inr t' \<longrightarrow>
            (Srednyaya_dlitelnost_s \<in> set (labels t') \<longleftrightarrow> ''dur_s'' \<in> set (columns d))
          \<and> (SD_dlitelnosti_s \<in> set (labels t') \<longleftrightarrow> ''dur_s'' \<in> set (columns d))"
    using compute_overall_table_gate by blast
  have col: "''dur_s'' \<in> set (columns df)"
    by (simp add: prepare_columns [OF assms])
  have t: "compute_overall_table df = Inr ?t" by (rule prepare_overall [OF assms])
  have fst_body: "map fst (body ?t) = map fst (groupby emotion_variant (rows df))"
    by (simp add: comp_def case_prod_unfold)
  have ev: "emotion_variant r = Some (e, v) \<longleftrightarrow> emotion r = Some e \<and> variant r = Some v" for r e v
    by (auto simp: emotion_variant_def split: option.splits)
  have keys: "set (map fst (body ?t))
        = {(e, v). \<exists>r \<in> set (rows df). emotion r = Some e \<and> variant r = Some v}"
    unfolding fst_body groupby_set by (auto simp: ev)
  have stats: "stats = [agg_mean (map percent_duration (filter (\<lambda>r. emotion_variant r = Some k) (rows df))),
                        agg_std (map percent_duration (filter (\<lambda>r. emotion_variant r = Some k) (rows df))),
                        agg_mean (map dur_s (filter (\<lambda>r. emotion_variant r = Some k) (rows df))),
                        agg_std (map dur_s (filter (\<lambda>r. emotion_variant r = Some k) (rows df)))]"
    if "(k, stats) \<in> set (body ?t)" for k stats
  proof -
    from that obtain g where g: "(k, g) \<in> set (groupby emotion_variant (rows df))"
      and s: "stats = agg True g"
      by auto
    from groupby_group [OF g] s show ?thesis by (simp add: agg_def)
  qed
  have none: "stats ! 2 = None \<and> stats ! 3 = None"
    if nd: "''total_duration'' \<notin> file_columns rus bil kab \<and> ''duration'' \<notin> file_columns rus bil kab"
      and m: "(k, stats) \<in> set (body ?t)" for k stats
  proof -
    have "\<forall>c \<in> set (map dur_s (filter (\<lambda>r. emotion_variant r = Some k) (rows df))). c = None"
      using prepare_dur_s [OF assms] nd by auto
    from agg_all_missing [OF this] stats [OF m] show ?thesis by simp
  qed
  have "\<exists>t. compute_overall_table df = Inr t
           \<and> labels t = [Emotsiya, Variant, Sredniy_pct_dlitelnosti, SD_pct,
                         Srednyaya_dlitelnost_s, SD_dlitelnosti_s]
           \<and> distinct (map fst (body t)) \<and> sorted (map fst (body t))
           \<and> set (map fst (body t))
               = {(e, v). \<exists>r \<in> set (rows df). emotion r = Some e \<and> variant r = Some v}
           \<and> (\<forall>(k, stats) \<in> set (body t).
                 stats = [agg_mean (map percent_duration (filter (\<lambda>r. emotion_variant r = Some k) (rows df))),
                          agg_std (map percent_duration (filter (\<lambda>r. emotion_variant r = Some k) (rows df))),
                          agg_mean (map dur_s (filter (\<lambda>r. emotion_variant r = Some k) (rows df))),
                          agg_std (map dur_s (filter (\<lambda>r. emotion_variant r = Some k) (rows df)))])
           \<and> (''total_duration'' \<notin> file_columns rus bil kab \<and> ''duration'' \<notin> file_columns rus bil kab
                \<longrightarrow> (\<forall>(k, stats) \<in> set (body t). stats ! 2 = None \<and> stats ! 3 = None))"
    using t keys stats none groupby_distinct [of emotion_variant "rows df"]
      groupby_sorted [of emotion_variant "rows df"]
    unfolding fst_body [symmetric]
    by (intro exI [of _ ?t]) (simp add: case_prod_unfold, blast)
  with gate col show ?thesis by (intro conjI)
qed

text \<open>
  The sample scenario: one row in the table, duration statistics missing.
\<close>

theorem overall_table_rows_witness:
  "prepare_full_dataframe lower_basic True scenario_file empty_file empty_file = Inr scenario_df
   \<and> ''total_duration'' \<notin> file_columns scenario_file empty_file empty_file
   \<and> ''duration'' \<notin> file_columns scenario_file empty_file empty_file
   \<and> (\<exists>t. compute_overall_table scenario_df = Inr t
         \<and> labels t = [Emotsiya, Variant, Sredniy_pct_dlitelnosti, SD_pct,
                       Srednyaya_dlitelnost_s, SD_dlitelnosti_s]
         \<and> map fst (body t) = [(str_neitralnaya, label_rus)]
         \<and> (\<forall>(k, stats) \<in> set (body t). stats ! 2 = None \<and> stats ! 3 = None))"
proof -
  have nd: "''total_duration'' \<notin> file_columns scenario_file empty_file empty_file
          \<and> ''duration'' \<notin> file_columns scenario_file empty_file empty_file"
    by (simp add: file_columns_def scenario_file_def empty_file_def)
  from overall_table_rows [OF prepare_scenario] nd
  obtain t where t: "compute_overall_table scenario_df = Inr t"
    and l: "labels t = [Emotsiya, Variant, Sredniy_pct_dlitelnosti, SD_pct,
                       Srednyaya_dlitelnost_s, SD_dlitelnosti_s]"
    and n: "\<forall>(k, stats) \<in> set (body t). stats ! 2 = None \<and> stats ! 3 = None"
    by blast
  have "map fst (body t) = [(str_neitralnaya, label_rus)]"
    using t by (simp add: overall_scenario) auto
  with t l n have "\<exists>t. compute_overall_table scenario_df = Inr t
         \<and> labels t = [Emotsiya, Variant, Sredniy_pct_dlitelnosti, SD_pct,
                       Srednyaya_dlitelnost_s, SD_dlitelnosti_s]
         \<and> map fst (body t) = [(str_neitralnaya, label_rus)]
         \<and> (\<forall>(k, stats) \<in> set (body t). stats ! 2 = None \<and> stats ! 3 = None)"
    by (intro exI [of _ t] conjI)
  with prepare_scenario nd show ?thesis by (intro conjI) simp_all
qed

text \<open>
  Claim C7. On a string the classifier lower-cases it and returns the label of the
  first of the substring tests that succeeds, in the order anger, joy, neutral (in
  Cyrillic or in Latin script), and the label "other" if none does.
\<close>

theorem detect_emotion_first_match:
  "detect_emotion lower (Some name) =
     (if (\<exists>p q. lower name = p @ str_gnev @ q) then str_gnev
      else if (\<exists>p q. lower name = p @ str_radost @ q) then str_radost'
      else if (\<exists>p q. lower name = p @ str_neitr @ q) \<or> (\<exists>p q. lower name = p @ str_neutr @ q)
           then str_neitralnaya
      else str_drugoe)"
  by (simp add: detect_emotion_def py_str_def contains_iff Let_def)

text \<open>
  A name in capitals that holds all three substrings is classified as anger.
\<close>

theorem detect_emotion_first_match_witness:
  "detect_emotion lower_basic (Some ([1043, 1053, 1045, 1042, 95] @ str_radost @ str_neutr)) = str_gnev"
proof -
  have "lower_basic ([1043, 1053, 1045, 1042, 95] @ str_radost @ str_neutr)
        = [] @ str_gnev @ ([95] @ str_radost @ str_neutr)"
    by (simp add: lower_basic_def lower_cp_def str_gnev_def str_radost_def str_neutr_def)
  then have "\<exists>p q. lower_basic ([1043, 1053, 1045, 1042, 95] @ str_radost @ str_neutr)
                 = p @ str_gnev @ q"
    by blast
  then show ?thesis
    by (simp only: detect_emotion_first_match if_True)
qed

text \<open>
  Claim C8. Whether the assembler succeeds does not depend on the duration columns.
  In the assembled dataset \<open>dur_s\<close> is \<open>percent_duration / 100 * total_duration\<close> in every
  row if some spreadsheet has a \<open>total_duration\<close> column (missing where either factor is
  missing), else \<open>duration\<close> if some spreadsheet has that column, else missing in every
  row.
\<close>

theorem dur_s_priority:
  "((\<exists>df. prepare_full_dataframe lower str_ok rus bil kab = Inr df) \<longleftrightarrow>
      ''transcription_phonemes'' \<in> file_columns rus bil kab
    \<and> str_ok
    \<and> (''emotion'' \<in> file_columns rus bil kab \<or> ''file_name'' \<in> file_columns rus bil kab)
    \<and> ''percent_duration'' \<in> file_columns rus bil kab)
   \<and> (\<forall>df r. prepare_full_dataframe lower str_ok rus bil kab = Inr df \<longrightarrow> r \<in> set (rows df) \<longrightarrow>
         dur_s r =
           (if ''total_duration'' \<in> file_columns rus bil kab
            then (case (percent_duration r, total_duration r) of
                    (Some p, Some t) \<Rightarrow> Some (p / 100 * t)
                  | _ \<Rightarrow> None)
            else if ''duration'' \<in> file_columns rus bil kab then duration r
            else None))"
proof (intro conjI allI impI)
  show "(\<exists>df. prepare_full_dataframe lower str_ok rus bil kab = Inr df) \<longleftrightarrow>
      ''transcription_phonemes'' \<in> file_columns rus bil kab
    \<and> str_ok
    \<and> (''emotion'' \<in> file_columns rus bil kab \<or> ''file_name'' \<in> file_columns rus bil kab)
    \<and> ''percent_duration'' \<in> file_columns rus bil kab"
    by (rule prepare_Inr_iff)
next
  fix df r
  assume "prepare_full_dataframe lower str_ok rus bil kab = Inr df" and "r \<in> set (rows df)"
  from prepare_dur_s [OF this]
  show "dur_s r =
           (if ''total_duration'' \<in> file_columns rus bil kab
            then (case (percent_duration r, total_duration r) of
                    (Some p, Some t) \<Rightarrow> Some (p / 100 * t)
                  | _ \<Rightarrow> None)
            else if ''duration'' \<in> file_columns rus bil kab then duration r
            else None)"
    by (simp add: scaled_duration_def split: option.splits)
qed

text \<open>
  A spreadsheet with both duration columns, and the sample scenario, which has none.
\<close>

theorem dur_s_priority_witness:
  "prepare_full_dataframe lower_basic True timed_file empty_file empty_file = Inr timed_df
   \<and> ''total_duration'' \<in> file_columns timed_file empty_file empty_file
   \<and> map percent_duration (rows timed_df) = [Some 50]
   \<and> map total_duration (rows timed_df) = [Some 2]
   \<and> map dur_s (rows timed_df) = [Some 1]
   \<and> prepare_full_dataframe lower_basic True scenario_file empty_file empty_file = Inr scenario_df
   \<and> ''total_duration'' \<notin> file_columns scenario_file empty_file empty_file
   \<and> ''duration'' \<notin> file_columns scenario_file empty_file empty_file
   \<and> dur_s (hd (rows scenario_df)) = None"
proof -
  have t: "''total_duration'' \<in> file_columns timed_file empty_file empty_file"
    by (simp add: file_columns_def timed_file_def)
  have r: "hd (rows timed_df) \<in> set (rows timed_df)" by (simp add: timed_df_def)
  have "dur_s (hd (rows timed_df)) =
          (case (percent_duration (hd (rows timed_df)), total_duration (hd (rows timed_df))) of
             (Some p, Some t) \<Rightarrow> Some (p / 100 * t) | _ \<Rightarrow> None)"
    using dur_s_priority [of lower_basic True timed_file empty_file empty_file] prepare_timed r t
    by (metis (no_types, lifting))
  then have d: "map dur_s (rows timed_df) = [Some 1]"
    by (simp add: timed_df_def file_row_def)
  have n: "''total_duration'' \<notin> file_columns scenario_file empty_file empty_file"
      "''duration'' \<notin> file_columns scenario_file empty_file empty_file"
    by (simp_all add: file_columns_def scenario_file_def empty_file_def)
  have "hd (rows scenario_df) \<in> set (rows scenario_df)" by (simp add: scenario_df_def)
  then have s: "dur_s (hd (rows scenario_df)) = None"
    using dur_s_priority [of lower_basic True scenario_file empty_file empty_file] prepare_scenario n
    by (metis (no_types, lifting))
  show ?thesis
    using prepare_timed t d prepare_scenario n s
    by (simp add: timed_df_def file_row_def)
qed

text \<open>
  Claim C9. The sample scenario: three rows of utterance \<open>u1\<close> with percentages 10, 20
  and 70 and no duration column. The assembled rows have no \<open>dur_s\<close>; zone assignment
  gives the indices 1, 2, 3 and the start zone three times; the overall table has the
  single row of the neutral emotion and the monolingual variant, with mean \<open>100 / 3\<close>,
  which is 33.33 to two decimals, and sample standard deviation \<open>sqrt (3100 / 3)\<close>,
  between 32.14 and 32.15.
\<close>

theorem concrete_scenario:
  "prepare_full_dataframe lower_basic True scenario_file empty_file empty_file = Inr scenario_df
   \<and> map file_name (rows scenario_df) = [Some [117, 49], Some [117, 49], Some [117, 49]]
   \<and> map variant (rows scenario_df) = [Some label_rus, Some label_rus, Some label_rus]
   \<and> map emotion (rows scenario_df)
       = [Some str_neitralnaya, Some str_neitralnaya, Some str_neitralnaya]
   \<and> map percent_duration (rows scenario_df) = [Some 10, Some 20, Some 70]
   \<and> map dur_s (rows scenario_df) = [None, None, None]
   \<and> (\<exists>z. assign_zones scenario_df = Inr z
          \<and> map v_index (rows z) = [Some 1, Some 2, Some 3]
          \<and> map zone (rows z) = [Some str_nachalo, Some str_nachalo, Some str_nachalo])
   \<and> (\<exists>t m sd. compute_overall_table scenario_df = Inr t
          \<and> body t = [((str_neitralnaya, label_rus), [Some m, Some sd, None, None])]
          \<and> m = 100 / 3 \<and> \<bar>m - 33.33\<bar> < 0.005
          \<and> sd = sqrt (3100 / 3) \<and> 32.14 < sd \<and> sd < 32.15)"
proof -
  have rows: "map file_name (rows scenario_df) = [Some [117, 49], Some [117, 49], Some [117, 49]]"
    "map variant (rows scenario_df) = [Some label_rus, Some label_rus, Some label_rus]"
    "map emotion (rows scenario_df)
       = [Some str_neitralnaya, Some str_neitralnaya, Some str_neitralnaya]"
    "map percent_duration (rows scenario_df) = [Some 10, Some 20, Some 70]"
    "map dur_s (rows scenario_df) = [None, None, None]"
    by (simp_all add: scenario_df_def scenario_row_def)
  have z: "\<exists>z. assign_zones scenario_df = Inr z
          \<and> map v_index (rows z) = [Some 1, Some 2, Some 3]
          \<and> map zone (rows z) = [Some str_nachalo, Some str_nachalo, Some str_nachalo]"
    by (simp add: assign_scenario)
  have sd: "32.14 < sqrt (3100 / 3 :: real)" "sqrt (3100 / 3 :: real) < 32.15"
    using sd_bounds by simp_all
  let ?t = "\<lparr>labels = [Emotsiya, Variant, Sredniy_pct_dlitelnosti, SD_pct,
                       Srednyaya_dlitelnost_s, SD_dlitelnosti_s],
              body = [((str_neitralnaya, label_rus),
                       [Some (100 / 3), Some (sqrt (3100 / 3)), None, None])]\<rparr>"
  have m: "\<bar>100 / 3 - 33.33\<bar> < (0.005 :: real)" by simp
  have "compute_overall_table scenario_df = Inr ?t
          \<and> body ?t = [((str_neitralnaya, label_rus),
                          [Some (100 / 3), Some (sqrt (3100 / 3)), None, None])]
          \<and> (100 / 3 :: real) = 100 / 3 \<and> \<bar>100 / 3 - 33.33\<bar> < (0.005 :: real)
          \<and> sqrt (3100 / 3) = sqrt (3100 / 3 :: real)
          \<and> 32.14 < sqrt (3100 / 3 :: real) \<and> sqrt (3100 / 3 :: real) < 32.15"
    using sd m overall_scenario by (intro conjI) simp_all
  then have t: "\<exists>t m sd. compute_overall_table scenario_df = Inr t
          \<and> body t = [((str_neitralnaya, label_rus), [Some m, Some sd, None, None])]
          \<and> m = 100 / 3 \<and> \<bar>m - 33.33\<bar> < 0.005
          \<and> sd = sqrt (3100 / 3) \<and> 32.14 < sd \<and> sd < 32.15"
    by blast
  show ?thesis using prepare_scenario rows z t by (intro conjI)
qed

text \<open>
  Claim C10. The assembled dataset holds, in order, exactly the loaded rows that pass
  the consonant filter. A row passes if and only if its phoneme label is missing or is
  a string that does not lower-case to "consonant"; so every loaded row with a missing
  label is retained.
\<close>

theorem missing_transcription_retained:
  assumes "prepare_full_dataframe lower str_ok rus bil kab = Inr df"
  shows "map underived (rows df)
           = map underived (filter (not_consonant lower) (rows (loaded rus bil kab)))
       \<and> (\<forall>r. not_consonant lower r \<longleftrightarrow>
               transcription_phonemes r = None
             \<or> (\<exists>s. transcription_phonemes r = Some s \<and> lower s \<noteq> str_consonant))
       \<and> (\<forall>r \<in> set (rows (loaded rus bil kab)).
             transcription_phonemes r = None \<longrightarrow> underived r \<in> set (map underived (rows df)))"
proof (intro conjI allI ballI impI)
  show eq: "map underived (rows df)
           = map underived (filter (not_consonant lower) (rows (loaded rus bil kab)))"
    by (rule prepare_rows [OF assms])
  show "not_consonant lower r \<longleftrightarrow>
               transcription_phonemes r = None
             \<or> (\<exists>s. transcription_phonemes r = Some s \<and> lower s \<noteq> str_consonant)" for r
    by (cases "transcription_phonemes r") (simp_all add: not_consonant_def)
  show "underived r \<in> set (map underived (rows df))"
    if "r \<in> set (rows (loaded rus bil kab))" and "transcription_phonemes r = None" for r
  proof -
    have "not_consonant lower r" using that(2) by (simp add: not_consonant_def)
    then have "r \<in> set (filter (not_consonant lower) (rows (loaded rus bil kab)))"
      using that(1) by simp
    then show ?thesis unfolding eq by (simp only: set_map) (rule imageI)
  qed
qed

text \<open>
  The spreadsheet with a missing label, a consonant and a vowel.
\<close>

theorem missing_transcription_retained_witness:
  "prepare_full_dataframe lower_basic True mixed_file empty_file empty_file = Inr mixed_df
   \<and> map transcription_phonemes (rows (loaded mixed_file empty_file empty_file))
       = [None, Some [67, 111, 110, 115, 111, 110, 97, 110, 116], Some [97]]
   \<and> map transcription_phonemes (rows mixed_df) = [None, Some [97]]
   \<and> underived (hd (rows (loaded mixed_file empty_file empty_file)))
       \<in> set (map underived (rows mixed_df))"
proof -
  have l: "map transcription_phonemes (rows (loaded mixed_file empty_file empty_file))
       = [None, Some [67, 111, 110, 115, 111, 110, 97, 110, 116], Some [97]]"
    by (simp add: loaded_def pd_concat_def load_variant_def mixed_file_def empty_file_def
        file_row_def add_column_def reindex_def)
  have h: "hd (rows (loaded mixed_file empty_file empty_file))
           \<in> set (rows (loaded mixed_file empty_file empty_file))"
    by (rule hd_in_set) (use l in auto)
  have n: "transcription_phonemes (hd (rows (loaded mixed_file empty_file empty_file))) = None"
    using l by (cases "rows (loaded mixed_file empty_file empty_file)") auto
  have "underived (hd (rows (loaded mixed_file empty_file empty_file)))
       \<in> set (map underived (rows mixed_df))"
    using missing_transcription_retained [OF prepare_mixed] h n by blast
  moreover have "map transcription_phonemes (rows mixed_df) = [None, Some [97]]"
    by (simp add: mixed_df_def file_row_def)
  ultimately show ?thesis using prepare_mixed l by (intro conjI)
qed

end
